theory Spec2Isabelle
  imports Main "HOL-Library.Word" "HOL-Library.Monad_Syntax"
begin

unbundle bit_operations_syntax

section \<open>Machine integers and architectural constants\<close>

text \<open>
  The translator is C code.  A C \<open>int\<close> or \<open>uint32_t\<close> that takes part in arithmetic is a
  32-bit word (addition wraps); decoded instruction fields, which the decoder extracts from
  bit fields and which are never negative, are natural numbers; fields used only as truth
  values are booleans.
\<close>

type_synonym u32 = "32 word"
type_synonym u64 = "64 word"

text \<open>
  Bit masks and register selectors that the source takes from \<open>cpu.h\<close> and
  \<open>internals.h\<close>, with the values those headers give them.
\<close>

definition R_V7M_FPCCR_S_MASK :: u32 where "R_V7M_FPCCR_S_MASK = 0x4"
definition R_V7M_FPCCR_ASPEN_MASK :: u32 where "R_V7M_FPCCR_ASPEN_MASK = 0x80000000"
definition R_V7M_CONTROL_FPCA_MASK :: u32 where "R_V7M_CONTROL_FPCA_MASK = 0x4"
definition R_V7M_CONTROL_SFPA_MASK :: u32 where "R_V7M_CONTROL_SFPA_MASK = 0x8"
definition R_V7M_CONTROL_SFPA_SHIFT :: nat where "R_V7M_CONTROL_SFPA_SHIFT = 3"
definition FPCR_NZCV_MASK :: u32 where "FPCR_NZCV_MASK = 0xf0000000"

definition ARM_VFP_FPSID :: nat where "ARM_VFP_FPSID = 0"
definition ARM_VFP_FPSCR :: nat where "ARM_VFP_FPSCR = 1"
definition ARM_VFP_FPSCR_NZCVQC :: nat where "ARM_VFP_FPSCR_NZCVQC = 2"
definition ARM_VFP_MVFR2 :: nat where "ARM_VFP_MVFR2 = 5"
definition ARM_VFP_MVFR1 :: nat where "ARM_VFP_MVFR1 = 6"
definition ARM_VFP_MVFR0 :: nat where "ARM_VFP_MVFR0 = 7"
definition ARM_VFP_FPEXC :: nat where "ARM_VFP_FPEXC = 8"
definition ARM_VFP_FPINST :: nat where "ARM_VFP_FPINST = 9"
definition ARM_VFP_FPINST2 :: nat where "ARM_VFP_FPINST2 = 10"
definition ARM_VFP_FPCXT_NS :: nat where "ARM_VFP_FPCXT_NS = 14"
definition ARM_VFP_FPCXT_S :: nat where "ARM_VFP_FPCXT_S = 15"
definition QEMU_VFP_FPSCR_NZCV :: nat where "QEMU_VFP_FPSCR_NZCV = 0xffff"

section \<open>Intermediate representation\<close>

text \<open>
  The translator appends operations to the op buffer of the TCG context.  Each constructor
  of \<open>op\<close> records one call of an emission primitive with its arguments.  The primitives
  themselves (\<open>tcg_gen_*\<close>, \<open>load_cpu_field\<close>, \<open>store_reg\<close>, \<open>gen_aa32_ld32u\<close>, ...) live in
  the TCG front end and in \<open>translate.c\<close>; the translator only calls them.
\<close>

type_synonym tmp = nat
type_synonym label = nat

datatype fpst = FPST_FPCR | FPST_FPCR_F16

datatype tcg_cond = TCG_COND_EQ | TCG_COND_NE

datatype cpu_field =
    V7M_FPCCR_S | V7M_FPCCR_NS
  | V7M_CONTROL_S
  | V7M_FPDSCR_S | V7M_FPDSCR_NS
  | VFP_XREGS nat

datatype memop = MO_32 | MO_64

datatype excp = EXCP_UDEF | EXCP_NOCP

datatype syndrome = Syn_fp_access_trap | Syn_uncategorized

datatype target_el = Default_exception_el | Target_el nat

datatype helper =
    H_v7m_preserve_fp_state | H_vfp_set_fpscr | H_vfp_get_fpscr
  | H_v8m_stackcheck | H_check_hcr_el2_trap
  | H_set_rmode
  | H_rinth | H_rints | H_rintd
  | H_vfp_toslh | H_vfp_toulh | H_vfp_tosls | H_vfp_touls | H_vfp_tosld | H_vfp_tould
  | H_vfp_negh | H_vfp_negs | H_vfp_negd
  | H_vfp_absh | H_vfp_abss | H_vfp_absd
  | H_vfp_muladdh | H_vfp_muladds | H_vfp_muladdd
  | H_vfp_muls | H_vfp_adds

datatype op =
    Movi_i32 tmp u32
  | Mov_i32 tmp tmp
  | Mov_i64 tmp tmp
  | Andi_i32 tmp tmp u32
  | Ori_i32 tmp tmp u32
  | Xori_i32 tmp tmp u32
  | Addi_i32 tmp tmp u32
  | Shli_i32 tmp tmp nat
  | Shri_i32 tmp tmp nat
  | Or_i32 tmp tmp tmp
  | Deposit_i32 tmp tmp tmp nat nat
  | Movcond_i32 tcg_cond tmp tmp tmp tmp tmp
  | Extrl_i64_i32 tmp tmp
  | Brcondi_i32 tcg_cond tmp u32 label
  | Br label
  | Set_label label
  | Ld_cpu_field tmp cpu_field
  | St_cpu_field tmp cpu_field
  | Load_reg tmp nat
  | Store_reg nat tmp
  | Set_nzcv tmp
  | Add_reg_for_lit tmp nat u32
  | Vfp_load_reg32 tmp u32
  | Vfp_store_reg32 tmp u32
  | Vfp_load_reg64 tmp u32
  | Vfp_store_reg64 tmp u32
  | Fpstatus_ptr tmp fpst
  | Gen_helper helper "tmp list"
  | Aa32_ld memop tmp tmp
  | Aa32_st memop tmp tmp
  | Exception_insn u32 excp syndrome target_el
  | Unallocated_encoding
  | Lookup_tb u32
  | Io_start
  | Set_condexec
  | Set_pc_im u32
  | Temp_free tmp

section \<open>Translation contexts\<close>

text \<open>
  \<open>TCGContext\<close> holds the op buffer and the allocators of temporaries and labels.
  A fresh temporary or label is the next unused number; released temporaries are not
  handed out again, which only makes distinct C variables distinct temporaries.
\<close>

record TCGContext =
  ops :: "op list"
  nb_temps :: nat
  nb_labels :: nat

datatype isar_feature =
    Aa32_fpsp_v2 | Aa32_fpsp_v3 | Aa32_fpdp_v2 | Aa32_fpshvec | Aa32_simd_r32
  | Aa32_fp16_arith | Aa32_simdfmac | Aa32_vrint | Aa32_vcvt_dr

datatype arm_feature =
    ARM_FEATURE_M | ARM_FEATURE_V8 | ARM_FEATURE_V8_1M | ARM_FEATURE_MVFR

datatype disas_jump = DISAS_NEXT | DISAS_NORETURN | DISAS_UPDATE_EXIT | DISAS_EXIT

text \<open>
  The fields of \<open>DisasContext\<close> that the VFP translator reads or writes.  \<open>vec_len\<close> and
  \<open>vec_stride\<close> cache the 3-bit LEN and 2-bit STRIDE fields of FPSCR and are never
  negative; \<open>cf_use_icount\<close> is \<open>tb_cflags(s->base.tb) & CF_USE_ICOUNT\<close>; \<open>is_user\<close> is the
  macro \<open>IS_USER(s)\<close>.
\<close>

record DisasContext =
  tcg_ctx :: TCGContext
  isar :: "isar_feature set"
  features :: "arm_feature set"
  fp_excp_el :: nat
  vfp_enabled :: bool
  v7m_lspact :: bool
  v8m_fpccr_s_wrong :: bool
  v7m_new_fp_ctxt_needed :: bool
  v8m_secure :: bool
  v8m_stackcheck :: bool
  vec_len :: nat
  vec_stride :: nat
  is_jmp :: disas_jump
  cf_use_icount :: bool
  pc_curr :: u32
  pc_next :: u32
  current_el :: nat
  is_user :: bool

definition dc_isar_feature :: "isar_feature \<Rightarrow> DisasContext \<Rightarrow> bool" where
  "dc_isar_feature f s = (f \<in> isar s)"

definition arm_dc_feature :: "DisasContext \<Rightarrow> arm_feature \<Rightarrow> bool" where
  "arm_dc_feature s f = (f \<in> features s)"

subsection \<open>Emission primitives on the TCG context\<close>

definition tcg_emit :: "op \<Rightarrow> TCGContext \<Rightarrow> TCGContext" where
  "tcg_emit x c = c\<lparr>ops := ops c @ [x]\<rparr>"

definition tcg_temp_new :: "TCGContext \<Rightarrow> tmp \<times> TCGContext" where
  "tcg_temp_new c = (nb_temps c, c\<lparr>nb_temps := Suc (nb_temps c)\<rparr>)"

definition tcg_temp_free :: "tmp \<Rightarrow> TCGContext \<Rightarrow> TCGContext" where
  "tcg_temp_free t c = tcg_emit (Temp_free t) c"

definition gen_new_label :: "TCGContext \<Rightarrow> label \<times> TCGContext" where
  "gen_new_label c = (nb_labels c, c\<lparr>nb_labels := Suc (nb_labels c)\<rparr>)"

definition tcg_const_i32 :: "u32 \<Rightarrow> TCGContext \<Rightarrow> tmp \<times> TCGContext" where
  "tcg_const_i32 v c = (let (t, c) = tcg_temp_new c in (t, tcg_emit (Movi_i32 t v) c))"

definition fpstatus_ptr :: "fpst \<Rightarrow> TCGContext \<Rightarrow> tmp \<times> TCGContext" where
  "fpstatus_ptr f c = (let (t, c) = tcg_temp_new c in (t, tcg_emit (Fpstatus_ptr t f) c))"

subsection \<open>Emission primitives on the translation context\<close>

definition emit :: "op \<Rightarrow> DisasContext \<Rightarrow> DisasContext" where
  "emit x s = s\<lparr>tcg_ctx := tcg_emit x (tcg_ctx s)\<rparr>"

definition temp_new :: "DisasContext \<Rightarrow> tmp \<times> DisasContext" where
  "temp_new s = (let (t, c) = tcg_temp_new (tcg_ctx s) in (t, s\<lparr>tcg_ctx := c\<rparr>))"

definition temp_free :: "tmp \<Rightarrow> DisasContext \<Rightarrow> DisasContext" where
  "temp_free t s = emit (Temp_free t) s"

definition new_label :: "DisasContext \<Rightarrow> label \<times> DisasContext" where
  "new_label s = (let (l, c) = gen_new_label (tcg_ctx s) in (l, s\<lparr>tcg_ctx := c\<rparr>))"

definition const_i32 :: "u32 \<Rightarrow> DisasContext \<Rightarrow> tmp \<times> DisasContext" where
  "const_i32 v s = (let (t, c) = tcg_const_i32 v (tcg_ctx s) in (t, s\<lparr>tcg_ctx := c\<rparr>))"

definition get_fpstatus_ptr :: "fpst \<Rightarrow> DisasContext \<Rightarrow> tmp \<times> DisasContext" where
  "get_fpstatus_ptr f s = (let (t, c) = fpstatus_ptr f (tcg_ctx s) in (t, s\<lparr>tcg_ctx := c\<rparr>))"

text \<open>\<open>load_cpu_field\<close> and \<open>load_reg\<close> return a new temporary holding the value read.\<close>

definition load_cpu_field :: "cpu_field \<Rightarrow> DisasContext \<Rightarrow> tmp \<times> DisasContext" where
  "load_cpu_field f s = (let (t, s) = temp_new s in (t, emit (Ld_cpu_field t f) s))"

definition store_cpu_field :: "tmp \<Rightarrow> cpu_field \<Rightarrow> DisasContext \<Rightarrow> DisasContext" where
  "store_cpu_field t f s = emit (St_cpu_field t f) s"

definition load_reg :: "nat \<Rightarrow> DisasContext \<Rightarrow> tmp \<times> DisasContext" where
  "load_reg r s = (let (t, s) = temp_new s in (t, emit (Load_reg t r) s))"

definition store_reg :: "nat \<Rightarrow> tmp \<Rightarrow> DisasContext \<Rightarrow> DisasContext" where
  "store_reg r t s = emit (Store_reg r t) s"

definition add_reg_for_lit :: "nat \<Rightarrow> u32 \<Rightarrow> DisasContext \<Rightarrow> tmp \<times> DisasContext" where
  "add_reg_for_lit r ofs s = (let (t, s) = temp_new s in (t, emit (Add_reg_for_lit t r ofs) s))"

definition gen_exception_insn ::
  "u32 \<Rightarrow> excp \<Rightarrow> syndrome \<Rightarrow> target_el \<Rightarrow> DisasContext \<Rightarrow> DisasContext" where
  "gen_exception_insn pc e syn el s = (emit (Exception_insn pc e syn el) s)\<lparr>is_jmp := DISAS_NORETURN\<rparr>"

definition unallocated_encoding :: "DisasContext \<Rightarrow> DisasContext" where
  "unallocated_encoding s = (emit Unallocated_encoding s)\<lparr>is_jmp := DISAS_NORETURN\<rparr>"

definition gen_lookup_tb :: "DisasContext \<Rightarrow> DisasContext" where
  "gen_lookup_tb s = (emit (Lookup_tb (pc_next s)) s)\<lparr>is_jmp := DISAS_EXIT\<rparr>"

definition gen_helper :: "helper \<Rightarrow> tmp list \<Rightarrow> DisasContext \<Rightarrow> DisasContext" where
  "gen_helper h args s = emit (Gen_helper h args) s"

section \<open>Register addressing\<close>

definition vfp_sreg_is_scalar :: "u32 \<Rightarrow> bool" where
  "vfp_sreg_is_scalar reg = (reg AND 0x18 = 0)"

definition vfp_dreg_is_scalar :: "u32 \<Rightarrow> bool" where
  "vfp_dreg_is_scalar reg = (reg AND 0xc = 0)"

definition vfp_advance_sreg :: "u32 \<Rightarrow> u32 \<Rightarrow> u32" where
  "vfp_advance_sreg reg delta = ((reg + delta) AND 0x7) OR (reg AND NOT 0x7)"

definition vfp_advance_dreg :: "u32 \<Rightarrow> u32 \<Rightarrow> u32" where
  "vfp_advance_dreg reg delta = ((reg + delta) AND 0x3) OR (reg AND NOT 0x3)"

section \<open>FPU access check\<close>

definition gen_preserve_fp_state :: "DisasContext \<Rightarrow> DisasContext" where
  "gen_preserve_fp_state s =
     (if v7m_lspact s then
        (let s = (if cf_use_icount s then emit Io_start (s\<lparr>is_jmp := DISAS_UPDATE_EXIT\<rparr>) else s);
             s = gen_helper H_v7m_preserve_fp_state [] s
         in s\<lparr>v7m_lspact := False\<rparr>)
      else s)"

text \<open>
  The result is \<open>None\<close> when one of the two \<open>assert\<close>s of the source fails (the process
  aborts), otherwise the returned truth value and the updated context.
\<close>

definition full_vfp_access_check ::
  "DisasContext \<Rightarrow> bool \<Rightarrow> (bool \<times> DisasContext) option" where
  "full_vfp_access_check s ignore_vfp_enabled =
     (if fp_excp_el s \<noteq> 0 then
        (if arm_dc_feature s ARM_FEATURE_M then None
         else Some (False, gen_exception_insn (pc_curr s) EXCP_UDEF Syn_fp_access_trap
                             (Target_el (fp_excp_el s)) s))
      else if \<not> vfp_enabled s \<and> \<not> ignore_vfp_enabled then
        (if arm_dc_feature s ARM_FEATURE_M then None
         else Some (False, unallocated_encoding s))
      else if arm_dc_feature s ARM_FEATURE_M then
        (let s = gen_preserve_fp_state s;
             s = (if v8m_fpccr_s_wrong s then
                    (let (tmp, s) = load_cpu_field V7M_FPCCR_S s;
                         s = (if v8m_secure s
                              then emit (Ori_i32 tmp tmp R_V7M_FPCCR_S_MASK) s
                              else emit (Andi_i32 tmp tmp (NOT R_V7M_FPCCR_S_MASK)) s);
                         s = store_cpu_field tmp V7M_FPCCR_S s
                     in s\<lparr>v8m_fpccr_s_wrong := False\<rparr>)
                  else s);
             s = (if v7m_new_fp_ctxt_needed s then
                    (let bits = R_V7M_CONTROL_FPCA_MASK;
                         (fpscr, s) = load_cpu_field
                                        (if v8m_secure s then V7M_FPDSCR_S else V7M_FPDSCR_NS) s;
                         s = gen_helper H_vfp_set_fpscr [fpscr] s;
                         s = temp_free fpscr s;
                         bits = (if v8m_secure s then bits OR R_V7M_CONTROL_SFPA_MASK else bits);
                         (control, s) = load_cpu_field V7M_CONTROL_S s;
                         s = emit (Ori_i32 control control bits) s;
                         s = store_cpu_field control V7M_CONTROL_S s
                     in s\<lparr>v7m_new_fp_ctxt_needed := False\<rparr>)
                  else s)
         in Some (True, s))
      else Some (True, s))"

definition vfp_access_check :: "DisasContext \<Rightarrow> (bool \<times> DisasContext) option" where
  "vfp_access_check s = full_vfp_access_check s False"

section \<open>Generic operation templates\<close>

definition vfp_load_reg32 :: "tmp \<Rightarrow> u32 \<Rightarrow> DisasContext \<Rightarrow> DisasContext" where
  "vfp_load_reg32 var reg s = emit (Vfp_load_reg32 var reg) s"

definition vfp_store_reg32 :: "tmp \<Rightarrow> u32 \<Rightarrow> DisasContext \<Rightarrow> DisasContext" where
  "vfp_store_reg32 var reg s = emit (Vfp_store_reg32 var reg) s"

definition vfp_load_reg64 :: "tmp \<Rightarrow> u32 \<Rightarrow> DisasContext \<Rightarrow> DisasContext" where
  "vfp_load_reg64 var reg s = emit (Vfp_load_reg64 var reg) s"

definition vfp_store_reg64 :: "tmp \<Rightarrow> u32 \<Rightarrow> DisasContext \<Rightarrow> DisasContext" where
  "vfp_store_reg64 var reg s = emit (Vfp_store_reg64 var reg) s"

type_synonym VFPGen3OpSPFn = "tmp \<Rightarrow> tmp \<Rightarrow> tmp \<Rightarrow> tmp \<Rightarrow> TCGContext \<Rightarrow> TCGContext"
type_synonym VFPGen2OpSPFn = "tmp \<Rightarrow> tmp \<Rightarrow> TCGContext \<Rightarrow> TCGContext"
type_synonym VFPGen2OpDPFn = "tmp \<Rightarrow> tmp \<Rightarrow> TCGContext \<Rightarrow> TCGContext"

definition call_fn :: "(TCGContext \<Rightarrow> TCGContext) \<Rightarrow> DisasContext \<Rightarrow> DisasContext" where
  "call_fn g s = s\<lparr>tcg_ctx := g (tcg_ctx s)\<rparr>"

text \<open>One pass through the first three statements of the loop of \<open>do_vfp_3op_sp\<close>.\<close>

definition vfp_3op_sp_body ::
  "VFPGen3OpSPFn \<Rightarrow> bool \<Rightarrow> tmp \<Rightarrow> tmp \<Rightarrow> tmp \<Rightarrow> tmp \<Rightarrow> u32 \<Rightarrow> DisasContext \<Rightarrow> DisasContext" where
  "vfp_3op_sp_body fn reads_vd f0 f1 fd fpst vd s =
     (let s = (if reads_vd then vfp_load_reg32 fd vd s else s);
          s = call_fn (fn fd f0 f1 fpst) s
      in vfp_store_reg32 fd vd s)"

text \<open>The \<open>for (;;)\<close> loop of \<open>do_vfp_3op_sp\<close>; it ends when \<open>veclen\<close> is 0.\<close>

fun vfp_3op_sp_loop ::
  "VFPGen3OpSPFn \<Rightarrow> bool \<Rightarrow> u32 \<Rightarrow> u32 \<Rightarrow> tmp \<Rightarrow> tmp \<Rightarrow> tmp \<Rightarrow> tmp \<Rightarrow>
   nat \<Rightarrow> u32 \<Rightarrow> u32 \<Rightarrow> u32 \<Rightarrow> DisasContext \<Rightarrow> DisasContext" where
  "vfp_3op_sp_loop fn reads_vd delta_d delta_m f0 f1 fd fpst 0 vd vn vm s =
     vfp_3op_sp_body fn reads_vd f0 f1 fd fpst vd s"
| "vfp_3op_sp_loop fn reads_vd delta_d delta_m f0 f1 fd fpst (Suc veclen) vd vn vm s =
     (let s = vfp_3op_sp_body fn reads_vd f0 f1 fd fpst vd s;
          vd = vfp_advance_sreg vd delta_d;
          vn = vfp_advance_sreg vn delta_d;
          s = vfp_load_reg32 f0 vn s;
          vm' = (if delta_m \<noteq> 0 then vfp_advance_sreg vm delta_m else vm);
          s = (if delta_m \<noteq> 0 then vfp_load_reg32 f1 vm' s else s)
      in vfp_3op_sp_loop fn reads_vd delta_d delta_m f0 f1 fd fpst veclen vd vn vm' s)"

definition do_vfp_3op_sp ::
  "DisasContext \<Rightarrow> VFPGen3OpSPFn \<Rightarrow> u32 \<Rightarrow> u32 \<Rightarrow> u32 \<Rightarrow> bool \<Rightarrow> (bool \<times> DisasContext) option" where
  "do_vfp_3op_sp s fn vd vn vm reads_vd =
     (let veclen = vec_len s in
      if \<not> dc_isar_feature Aa32_fpsp_v2 s then Some (False, s)
      else if \<not> dc_isar_feature Aa32_fpshvec s \<and> (veclen \<noteq> 0 \<or> vec_stride s \<noteq> 0)
      then Some (False, s)
      else do {
        (ok, s) \<leftarrow> vfp_access_check s;
        if \<not> ok then Some (True, s)
        else
          (let (veclen, delta_d, delta_m) =
                 (if veclen > 0 then
                    (if vfp_sreg_is_scalar vd then (0, 0, 0)
                     else
                       (let delta_d = of_nat (vec_stride s) + 1
                        in if vfp_sreg_is_scalar vm then (veclen, delta_d, 0)
                           else (veclen, delta_d, delta_d)))
                  else (veclen, 0, 0));
               (f0, s) = temp_new s;
               (f1, s) = temp_new s;
               (fd, s) = temp_new s;
               (fpst, s) = get_fpstatus_ptr FPST_FPCR s;
               s = vfp_load_reg32 f0 vn s;
               s = vfp_load_reg32 f1 vm s;
               s = vfp_3op_sp_loop fn reads_vd delta_d delta_m f0 f1 fd fpst veclen vd vn vm s;
               s = temp_free f0 s;
               s = temp_free f1 s;
               s = temp_free fd s;
               s = temp_free fpst s
           in Some (True, s))
      })"

text \<open>The inner \<open>while (veclen--)\<close> loop of the one-to-many case.\<close>

fun vfp_2op_sp_one_many :: "u32 \<Rightarrow> tmp \<Rightarrow> nat \<Rightarrow> u32 \<Rightarrow> DisasContext \<Rightarrow> DisasContext" where
  "vfp_2op_sp_one_many delta_d fd 0 vd s = s"
| "vfp_2op_sp_one_many delta_d fd (Suc veclen) vd s =
     (let vd = vfp_advance_sreg vd delta_d;
          s = vfp_store_reg32 fd vd s
      in vfp_2op_sp_one_many delta_d fd veclen vd s)"

fun vfp_2op_sp_loop ::
  "VFPGen2OpSPFn \<Rightarrow> u32 \<Rightarrow> u32 \<Rightarrow> tmp \<Rightarrow> tmp \<Rightarrow> nat \<Rightarrow> u32 \<Rightarrow> u32 \<Rightarrow> DisasContext \<Rightarrow> DisasContext" where
  "vfp_2op_sp_loop fn delta_d delta_m f0 fd 0 vd vm s =
     (let s = call_fn (fn fd f0) s in vfp_store_reg32 fd vd s)"
| "vfp_2op_sp_loop fn delta_d delta_m f0 fd (Suc veclen) vd vm s =
     (let s = call_fn (fn fd f0) s;
          s = vfp_store_reg32 fd vd s
      in if delta_m = 0 then vfp_2op_sp_one_many delta_d fd (Suc veclen) vd s
         else
           (let vd = vfp_advance_sreg vd delta_d;
                vm = vfp_advance_sreg vm delta_m;
                s = vfp_load_reg32 f0 vm s
            in vfp_2op_sp_loop fn delta_d delta_m f0 fd veclen vd vm s))"

definition do_vfp_2op_sp ::
  "DisasContext \<Rightarrow> VFPGen2OpSPFn \<Rightarrow> u32 \<Rightarrow> u32 \<Rightarrow> (bool \<times> DisasContext) option" where
  "do_vfp_2op_sp s fn vd vm =
     (let veclen = vec_len s in
      if \<not> dc_isar_feature Aa32_fpsp_v2 s then Some (False, s)
      else if \<not> dc_isar_feature Aa32_fpshvec s \<and> (veclen \<noteq> 0 \<or> vec_stride s \<noteq> 0)
      then Some (False, s)
      else do {
        (ok, s) \<leftarrow> vfp_access_check s;
        if \<not> ok then Some (True, s)
        else
          (let (veclen, delta_d, delta_m) =
                 (if veclen > 0 then
                    (if vfp_sreg_is_scalar vd then (0, 0, 0)
                     else
                       (let delta_d = of_nat (vec_stride s) + 1
                        in if vfp_sreg_is_scalar vm then (veclen, delta_d, 0)
                           else (veclen, delta_d, delta_d)))
                  else (veclen, 0, 0));
               (f0, s) = temp_new s;
               (fd, s) = temp_new s;
               s = vfp_load_reg32 f0 vm s;
               s = vfp_2op_sp_loop fn delta_d delta_m f0 fd veclen vd vm s;
               s = temp_free f0 s;
               s = temp_free fd s
           in Some (True, s))
      })"

fun vfp_2op_dp_one_many :: "u32 \<Rightarrow> tmp \<Rightarrow> nat \<Rightarrow> u32 \<Rightarrow> DisasContext \<Rightarrow> DisasContext" where
  "vfp_2op_dp_one_many delta_d fd 0 vd s = s"
| "vfp_2op_dp_one_many delta_d fd (Suc veclen) vd s =
     (let vd = vfp_advance_dreg vd delta_d;
          s = vfp_store_reg64 fd vd s
      in vfp_2op_dp_one_many delta_d fd veclen vd s)"

text \<open>
  The loop of \<open>do_vfp_2op_dp\<close>.  The source assigns \<open>vd\<close> twice when it sets up the next
  iteration, the second time from \<open>vm\<close>, and leaves \<open>vm\<close> as it is.
\<close>

fun vfp_2op_dp_loop ::
  "VFPGen2OpDPFn \<Rightarrow> u32 \<Rightarrow> u32 \<Rightarrow> tmp \<Rightarrow> tmp \<Rightarrow> nat \<Rightarrow> u32 \<Rightarrow> u32 \<Rightarrow> DisasContext \<Rightarrow> DisasContext" where
  "vfp_2op_dp_loop fn delta_d delta_m f0 fd 0 vd vm s =
     (let s = call_fn (fn fd f0) s in vfp_store_reg64 fd vd s)"
| "vfp_2op_dp_loop fn delta_d delta_m f0 fd (Suc veclen) vd vm s =
     (let s = call_fn (fn fd f0) s;
          s = vfp_store_reg64 fd vd s
      in if delta_m = 0 then vfp_2op_dp_one_many delta_d fd (Suc veclen) vd s
         else
           (let vd = vfp_advance_dreg vd delta_d;
                vd = vfp_advance_dreg vm delta_m;
                s = vfp_load_reg64 f0 vm s
            in vfp_2op_dp_loop fn delta_d delta_m f0 fd veclen vd vm s))"

definition do_vfp_2op_dp ::
  "DisasContext \<Rightarrow> VFPGen2OpDPFn \<Rightarrow> u32 \<Rightarrow> u32 \<Rightarrow> (bool \<times> DisasContext) option" where
  "do_vfp_2op_dp s fn vd vm =
     (let veclen = vec_len s in
      if \<not> dc_isar_feature Aa32_fpdp_v2 s then Some (False, s)
      else if \<not> dc_isar_feature Aa32_simd_r32 s \<and> (vd OR vm) AND 0x10 \<noteq> 0 then Some (False, s)
      else if \<not> dc_isar_feature Aa32_fpshvec s \<and> (veclen \<noteq> 0 \<or> vec_stride s \<noteq> 0)
      then Some (False, s)
      else do {
        (ok, s) \<leftarrow> vfp_access_check s;
        if \<not> ok then Some (True, s)
        else
          (let (veclen, delta_d, delta_m) =
                 (if veclen > 0 then
                    (if vfp_dreg_is_scalar vd then (0, 0, 0)
                     else
                       (let delta_d = of_nat (vec_stride s div 2) + 1
                        in if vfp_dreg_is_scalar vm then (veclen, delta_d, 0)
                           else (veclen, delta_d, delta_d)))
                  else (veclen, 0, 0));
               (f0, s) = temp_new s;
               (fd, s) = temp_new s;
               s = vfp_load_reg64 f0 vm s;
               s = vfp_2op_dp_loop fn delta_d delta_m f0 fd veclen vd vm s;
               s = temp_free f0 s;
               s = temp_free fd s
           in Some (True, s))
      })"

text \<open>
  Decoded argument records.  A field \<open>x\<close> of a C argument structure is the record field
  \<open>a_x\<close> (read \<open>a->x\<close>); the structures of the system-register and block-transfer
  instructions further down carry the instruction's name instead of \<open>a\<close>.
\<close>

record arg_2op =
  a_vd :: nat
  a_vm :: nat

record arg_3op = arg_2op +
  a_vn :: nat

definition tcg_gen_mov_i32 :: VFPGen2OpSPFn where
  "tcg_gen_mov_i32 d a c = tcg_emit (Mov_i32 d a) c"

definition tcg_gen_mov_i64 :: VFPGen2OpDPFn where
  "tcg_gen_mov_i64 d a c = tcg_emit (Mov_i64 d a) c"

definition trans_VMOV_reg_sp :: "DisasContext \<Rightarrow> arg_2op \<Rightarrow> (bool \<times> DisasContext) option" where
  "trans_VMOV_reg_sp s a = do_vfp_2op_sp s tcg_gen_mov_i32 (of_nat (a_vd a)) (of_nat (a_vm a))"

definition trans_VMOV_reg_dp :: "DisasContext \<Rightarrow> arg_2op \<Rightarrow> (bool \<times> DisasContext) option" where
  "trans_VMOV_reg_dp s a = do_vfp_2op_dp s tcg_gen_mov_i64 (of_nat (a_vd a)) (of_nat (a_vm a))"

definition gen_helper_vfp_adds :: VFPGen3OpSPFn where
  "gen_helper_vfp_adds d n m fpst c = tcg_emit (Gen_helper H_vfp_adds [d, n, m, fpst]) c"

definition trans_VADD_sp :: "DisasContext \<Rightarrow> arg_3op \<Rightarrow> (bool \<times> DisasContext) option" where
  "trans_VADD_sp s a =
     do_vfp_3op_sp s gen_helper_vfp_adds (of_nat (a_vd a)) (of_nat (a_vn a)) (of_nat (a_vm a)) False"

definition gen_VMLA_sp :: VFPGen3OpSPFn where
  "gen_VMLA_sp d n m fpst c =
     (let (tmp, c) = tcg_temp_new c;
          c = tcg_emit (Gen_helper H_vfp_muls [tmp, n, m, fpst]) c;
          c = tcg_emit (Gen_helper H_vfp_adds [d, d, tmp, fpst]) c
      in tcg_temp_free tmp c)"

definition trans_VMLA_sp :: "DisasContext \<Rightarrow> arg_3op \<Rightarrow> (bool \<times> DisasContext) option" where
  "trans_VMLA_sp s a =
     do_vfp_3op_sp s gen_VMLA_sp (of_nat (a_vd a)) (of_nat (a_vn a)) (of_nat (a_vm a)) True"

text \<open>A translation context of a VFPv2 core with short vectors, nothing emitted yet.\<close>

definition ctx0 :: DisasContext where
  "ctx0 = \<lparr> tcg_ctx = \<lparr> ops = [], nb_temps = 0, nb_labels = 0 \<rparr>,
            isar = {Aa32_fpsp_v2, Aa32_fpdp_v2, Aa32_fpshvec, Aa32_simd_r32},
            features = {},
            fp_excp_el = 0, vfp_enabled = True,
            v7m_lspact = False, v8m_fpccr_s_wrong = False, v7m_new_fp_ctxt_needed = False,
            v8m_secure = False, v8m_stackcheck = False,
            vec_len = 0, vec_stride = 0,
            is_jmp = DISAS_NEXT, cf_use_icount = False,
            pc_curr = 0x1000, pc_next = 0x1004, current_el = 1, is_user = False \<rparr>"

subsection \<open>The short-vector policy in the words of the specification\<close>

text \<open>
  The specification of the binary template: the operation is emitted once when the vector
  length is zero or the destination is in a scalar bank, and \<open>vector_length + 1\<close> times
  otherwise; every iteration advances destination and first source by \<open>stride + 1\<close>, and
  the second source too unless it is in a scalar bank.
\<close>

definition emit_binary_count :: "nat \<Rightarrow> u32 \<Rightarrow> nat" where
  "emit_binary_count vector_length dest =
     (if vector_length = 0 \<or> vfp_sreg_is_scalar dest then 1 else vector_length + 1)"

definition emit_binary_next :: "nat \<Rightarrow> bool \<Rightarrow> u32 \<times> u32 \<times> u32 \<Rightarrow> u32 \<times> u32 \<times> u32" where
  "emit_binary_next stride rhs_scalar r =
     (case r of (dest, lhs, rhs) \<Rightarrow>
        (vfp_advance_sreg dest (of_nat stride + 1),
         vfp_advance_sreg lhs (of_nat stride + 1),
         if rhs_scalar then rhs else vfp_advance_sreg rhs (of_nat stride + 1)))"

text \<open>The operand registers of the first \<open>n\<close> iterations, starting from \<open>r\<close>.\<close>

fun emit_binary_operands ::
  "nat \<Rightarrow> nat \<Rightarrow> bool \<Rightarrow> u32 \<times> u32 \<times> u32 \<Rightarrow> (u32 \<times> u32 \<times> u32) list" where
  "emit_binary_operands 0 stride rhs_scalar r = []"
| "emit_binary_operands (Suc n) stride rhs_scalar r =
     r # emit_binary_operands n stride rhs_scalar (emit_binary_next stride rhs_scalar r)"

text \<open>One application of the operation at the registers \<open>r\<close>.\<close>

definition emit_binary_apply ::
  "VFPGen3OpSPFn \<Rightarrow> bool \<Rightarrow> tmp \<Rightarrow> tmp \<Rightarrow> tmp \<Rightarrow> tmp \<Rightarrow> u32 \<times> u32 \<times> u32 \<Rightarrow>
   DisasContext \<Rightarrow> DisasContext" where
  "emit_binary_apply fn reads_dest f0 f1 fd fpst r s =
     (case r of (dest, lhs, rhs) \<Rightarrow>
        vfp_store_reg32 fd dest
          (call_fn (fn fd f0 f1 fpst)
             (if reads_dest then vfp_load_reg32 fd dest s else s)))"

text \<open>Loading the sources of a later iteration; a scalar second source is kept.\<close>

definition emit_binary_reload ::
  "bool \<Rightarrow> tmp \<Rightarrow> tmp \<Rightarrow> u32 \<times> u32 \<times> u32 \<Rightarrow> DisasContext \<Rightarrow> DisasContext" where
  "emit_binary_reload rhs_scalar f0 f1 r s =
     (case r of (dest, lhs, rhs) \<Rightarrow>
        (let s = vfp_load_reg32 f0 lhs s
         in if rhs_scalar then s else vfp_load_reg32 f1 rhs s))"

definition emit_binary_sp ::
  "VFPGen3OpSPFn \<Rightarrow> bool \<Rightarrow> nat \<Rightarrow> nat \<Rightarrow> u32 \<Rightarrow> u32 \<Rightarrow> u32 \<Rightarrow>
   DisasContext \<Rightarrow> DisasContext" where
  "emit_binary_sp fn reads_dest vector_length stride dest lhs rhs s =
     (let n = emit_binary_count vector_length dest;
          rhs_scalar = vfp_sreg_is_scalar rhs;
          regs = emit_binary_operands n stride rhs_scalar (dest, lhs, rhs);
          (f0, s) = temp_new s;
          (f1, s) = temp_new s;
          (fd, s) = temp_new s;
          (fpst, s) = get_fpstatus_ptr FPST_FPCR s;
          s = vfp_load_reg32 f0 lhs s;
          s = vfp_load_reg32 f1 rhs s;
          s = emit_binary_apply fn reads_dest f0 f1 fd fpst (hd regs) s;
          s = foldl (\<lambda>s r. emit_binary_apply fn reads_dest f0 f1 fd fpst r
                               (emit_binary_reload rhs_scalar f0 f1 r s)) s (tl regs);
          s = temp_free f0 s;
          s = temp_free f1 s;
          s = temp_free fd s
      in temp_free fpst s)"

section \<open>Fused multiply-add\<close>

definition do_vfm_hp :: "DisasContext \<Rightarrow> arg_3op \<Rightarrow> bool \<Rightarrow> bool \<Rightarrow> (bool \<times> DisasContext) option" where
  "do_vfm_hp s a neg_n neg_d =
     (if \<not> dc_isar_feature Aa32_fp16_arith s \<or> \<not> dc_isar_feature Aa32_simdfmac s
         \<or> \<not> dc_isar_feature Aa32_fpsp_v2 s then Some (False, s)
      else if vec_len s \<noteq> 0 \<or> vec_stride s \<noteq> 0 then Some (False, s)
      else do {
        (ok, s) \<leftarrow> vfp_access_check s;
        if \<not> ok then Some (True, s)
        else
          (let (vn, s) = temp_new s;
               (vm, s) = temp_new s;
               (vd, s) = temp_new s;
               s = vfp_load_reg32 vn (of_nat (a_vn a)) s;
               s = vfp_load_reg32 vm (of_nat (a_vm a)) s;
               s = (if neg_n then gen_helper H_vfp_negh [vn, vn] s else s);
               s = vfp_load_reg32 vd (of_nat (a_vd a)) s;
               s = (if neg_d then gen_helper H_vfp_negh [vd, vd] s else s);
               (fpst, s) = get_fpstatus_ptr FPST_FPCR_F16 s;
               s = gen_helper H_vfp_muladdh [vd, vn, vm, vd, fpst] s;
               s = vfp_store_reg32 vd (of_nat (a_vd a)) s;
               s = temp_free fpst s;
               s = temp_free vn s;
               s = temp_free vm s;
               s = temp_free vd s
           in Some (True, s))
      })"

definition do_vfm_sp :: "DisasContext \<Rightarrow> arg_3op \<Rightarrow> bool \<Rightarrow> bool \<Rightarrow> (bool \<times> DisasContext) option" where
  "do_vfm_sp s a neg_n neg_d =
     (if \<not> dc_isar_feature Aa32_simdfmac s \<or> \<not> dc_isar_feature Aa32_fpsp_v2 s
      then Some (False, s)
      else if vec_len s \<noteq> 0 \<or> vec_stride s \<noteq> 0 then Some (False, s)
      else do {
        (ok, s) \<leftarrow> vfp_access_check s;
        if \<not> ok then Some (True, s)
        else
          (let (vn, s) = temp_new s;
               (vm, s) = temp_new s;
               (vd, s) = temp_new s;
               s = vfp_load_reg32 vn (of_nat (a_vn a)) s;
               s = vfp_load_reg32 vm (of_nat (a_vm a)) s;
               s = (if neg_n then gen_helper H_vfp_negs [vn, vn] s else s);
               s = vfp_load_reg32 vd (of_nat (a_vd a)) s;
               s = (if neg_d then gen_helper H_vfp_negs [vd, vd] s else s);
               (fpst, s) = get_fpstatus_ptr FPST_FPCR s;
               s = gen_helper H_vfp_muladds [vd, vn, vm, vd, fpst] s;
               s = vfp_store_reg32 vd (of_nat (a_vd a)) s;
               s = temp_free fpst s;
               s = temp_free vn s;
               s = temp_free vm s;
               s = temp_free vd s
           in Some (True, s))
      })"

definition do_vfm_dp :: "DisasContext \<Rightarrow> arg_3op \<Rightarrow> bool \<Rightarrow> bool \<Rightarrow> (bool \<times> DisasContext) option" where
  "do_vfm_dp s a neg_n neg_d =
     (if \<not> dc_isar_feature Aa32_simdfmac s \<or> \<not> dc_isar_feature Aa32_fpdp_v2 s
      then Some (False, s)
      else if vec_len s \<noteq> 0 \<or> vec_stride s \<noteq> 0 then Some (False, s)
      else if \<not> dc_isar_feature Aa32_simd_r32 s
              \<and> ((of_nat (a_vd a) OR of_nat (a_vn a) OR of_nat (a_vm a)) AND (0x10 :: u32)) \<noteq> 0
      then Some (False, s)
      else do {
        (ok, s) \<leftarrow> vfp_access_check s;
        if \<not> ok then Some (True, s)
        else
          (let (vn, s) = temp_new s;
               (vm, s) = temp_new s;
               (vd, s) = temp_new s;
               s = vfp_load_reg64 vn (of_nat (a_vn a)) s;
               s = vfp_load_reg64 vm (of_nat (a_vm a)) s;
               s = (if neg_n then gen_helper H_vfp_negd [vn, vn] s else s);
               s = vfp_load_reg64 vd (of_nat (a_vd a)) s;
               s = (if neg_d then gen_helper H_vfp_negd [vd, vd] s else s);
               (fpst, s) = get_fpstatus_ptr FPST_FPCR s;
               s = gen_helper H_vfp_muladdd [vd, vn, vm, vd, fpst] s;
               s = vfp_store_reg64 vd (of_nat (a_vd a)) s;
               s = temp_free fpst s;
               s = temp_free vn s;
               s = temp_free vm s;
               s = temp_free vd s
           in Some (True, s))
      })"

text \<open>The twelve handlers that \<open>MAKE_VFM_TRANS_FNS\<close> generates.\<close>

definition trans_VFMA_hp :: "DisasContext \<Rightarrow> arg_3op \<Rightarrow> (bool \<times> DisasContext) option" where
  "trans_VFMA_hp s a = do_vfm_hp s a False False"

definition trans_VFMS_hp :: "DisasContext \<Rightarrow> arg_3op \<Rightarrow> (bool \<times> DisasContext) option" where
  "trans_VFMS_hp s a = do_vfm_hp s a True False"

definition trans_VFNMA_hp :: "DisasContext \<Rightarrow> arg_3op \<Rightarrow> (bool \<times> DisasContext) option" where
  "trans_VFNMA_hp s a = do_vfm_hp s a False True"

definition trans_VFNMS_hp :: "DisasContext \<Rightarrow> arg_3op \<Rightarrow> (bool \<times> DisasContext) option" where
  "trans_VFNMS_hp s a = do_vfm_hp s a True True"

definition trans_VFMA_sp :: "DisasContext \<Rightarrow> arg_3op \<Rightarrow> (bool \<times> DisasContext) option" where
  "trans_VFMA_sp s a = do_vfm_sp s a False False"

definition trans_VFMS_sp :: "DisasContext \<Rightarrow> arg_3op \<Rightarrow> (bool \<times> DisasContext) option" where
  "trans_VFMS_sp s a = do_vfm_sp s a True False"

definition trans_VFNMA_sp :: "DisasContext \<Rightarrow> arg_3op \<Rightarrow> (bool \<times> DisasContext) option" where
  "trans_VFNMA_sp s a = do_vfm_sp s a False True"

definition trans_VFNMS_sp :: "DisasContext \<Rightarrow> arg_3op \<Rightarrow> (bool \<times> DisasContext) option" where
  "trans_VFNMS_sp s a = do_vfm_sp s a True True"

definition trans_VFMA_dp :: "DisasContext \<Rightarrow> arg_3op \<Rightarrow> (bool \<times> DisasContext) option" where
  "trans_VFMA_dp s a = do_vfm_dp s a False False"

definition trans_VFMS_dp :: "DisasContext \<Rightarrow> arg_3op \<Rightarrow> (bool \<times> DisasContext) option" where
  "trans_VFMS_dp s a = do_vfm_dp s a True False"

definition trans_VFNMA_dp :: "DisasContext \<Rightarrow> arg_3op \<Rightarrow> (bool \<times> DisasContext) option" where
  "trans_VFNMA_dp s a = do_vfm_dp s a False True"

definition trans_VFNMS_dp :: "DisasContext \<Rightarrow> arg_3op \<Rightarrow> (bool \<times> DisasContext) option" where
  "trans_VFNMS_dp s a = do_vfm_dp s a True True"

subsection \<open>The fused multiply-add rule in the words of the specification\<close>

datatype vfm_insn = VFMA | VFMS | VFNMA | VFNMS

datatype precision = HP | SP | DP

text \<open>The handler of a variant in a precision.\<close>

fun trans_vfm ::
  "vfm_insn \<Rightarrow> precision \<Rightarrow> DisasContext \<Rightarrow> arg_3op \<Rightarrow> (bool \<times> DisasContext) option" where
  "trans_vfm VFMA HP = trans_VFMA_hp"
| "trans_vfm VFMS HP = trans_VFMS_hp"
| "trans_vfm VFNMA HP = trans_VFNMA_hp"
| "trans_vfm VFNMS HP = trans_VFNMS_hp"
| "trans_vfm VFMA SP = trans_VFMA_sp"
| "trans_vfm VFMS SP = trans_VFMS_sp"
| "trans_vfm VFNMA SP = trans_VFNMA_sp"
| "trans_vfm VFNMS SP = trans_VFNMS_sp"
| "trans_vfm VFMA DP = trans_VFMA_dp"
| "trans_vfm VFMS DP = trans_VFMS_dp"
| "trans_vfm VFNMA DP = trans_VFNMA_dp"
| "trans_vfm VFNMS DP = trans_VFNMS_dp"

definition negates_multiplicand :: "vfm_insn \<Rightarrow> bool" where
  "negates_multiplicand i = (i = VFMS \<or> i = VFNMS)"

definition negates_accumulator :: "vfm_insn \<Rightarrow> bool" where
  "negates_accumulator i = (i = VFNMA \<or> i = VFNMS)"

definition load_op :: "precision \<Rightarrow> tmp \<Rightarrow> u32 \<Rightarrow> op" where
  "load_op p t r = (if p = DP then Vfp_load_reg64 t r else Vfp_load_reg32 t r)"

definition store_op :: "precision \<Rightarrow> tmp \<Rightarrow> u32 \<Rightarrow> op" where
  "store_op p t r = (if p = DP then Vfp_store_reg64 t r else Vfp_store_reg32 t r)"

definition negate_op :: "precision \<Rightarrow> tmp \<Rightarrow> op" where
  "negate_op p t =
     Gen_helper (case p of HP \<Rightarrow> H_vfp_negh | SP \<Rightarrow> H_vfp_negs | DP \<Rightarrow> H_vfp_negd) [t, t]"

text \<open>
  The fused call: the result goes to \<open>acc\<close>, the product is \<open>m1 * m2\<close>, and \<open>acc\<close> is the
  addend (the helper's arguments are result, multiplicand, multiplicand, addend, status).
\<close>

definition fused_op :: "precision \<Rightarrow> tmp \<Rightarrow> tmp \<Rightarrow> tmp \<Rightarrow> tmp \<Rightarrow> op" where
  "fused_op p m1 m2 acc fpst =
     Gen_helper (case p of HP \<Rightarrow> H_vfp_muladdh | SP \<Rightarrow> H_vfp_muladds | DP \<Rightarrow> H_vfp_muladdd)
       [acc, m1, m2, acc, fpst]"

definition vfm_fpst :: "precision \<Rightarrow> fpst" where
  "vfm_fpst p = (if p = HP then FPST_FPCR_F16 else FPST_FPCR)"

text \<open>
  The sequence the specification asks for, on temporaries \<open>m1\<close>, \<open>m2\<close>, \<open>acc\<close> holding the
  registers \<open>vn\<close>, \<open>vm\<close>, \<open>vd\<close>: negations are steps of their own before the fused call.
\<close>

definition fused_sequence ::
  "vfm_insn \<Rightarrow> precision \<Rightarrow> tmp \<Rightarrow> tmp \<Rightarrow> tmp \<Rightarrow> tmp \<Rightarrow> u32 \<Rightarrow> u32 \<Rightarrow> u32 \<Rightarrow> op list" where
  "fused_sequence i p m1 m2 acc fpst vn vm vd =
     [load_op p m1 vn, load_op p m2 vm]
     @ (if negates_multiplicand i then [negate_op p m1] else [])
     @ [load_op p acc vd]
     @ (if negates_accumulator i then [negate_op p acc] else [])
     @ [Fpstatus_ptr fpst (vfm_fpst p), fused_op p m1 m2 acc fpst, store_op p acc vd]"

text \<open>The decode-time conditions under which a variant is defined.\<close>

definition vfm_legal :: "precision \<Rightarrow> DisasContext \<Rightarrow> arg_3op \<Rightarrow> bool" where
  "vfm_legal p s a =
     (dc_isar_feature Aa32_simdfmac s
      \<and> (p = HP \<longrightarrow> dc_isar_feature Aa32_fp16_arith s)
      \<and> (p \<noteq> DP \<longrightarrow> dc_isar_feature Aa32_fpsp_v2 s)
      \<and> (p = DP \<longrightarrow> dc_isar_feature Aa32_fpdp_v2 s
                   \<and> (dc_isar_feature Aa32_simd_r32 s
                       \<or> ((of_nat (a_vd a) OR of_nat (a_vn a) OR of_nat (a_vm a))
                             AND (0x10 :: u32)) = 0))
      \<and> vec_len s = 0 \<and> vec_stride s = 0)"

text \<open>A VFPv4 core with half precision, nothing emitted yet.\<close>

definition ctx_v4 :: DisasContext where
  "ctx_v4 = \<lparr> tcg_ctx = \<lparr> ops = [], nb_temps = 0, nb_labels = 0 \<rparr>,
              isar = {Aa32_fpsp_v2, Aa32_fpsp_v3, Aa32_fpdp_v2, Aa32_simd_r32, Aa32_fp16_arith,
                      Aa32_simdfmac, Aa32_vrint, Aa32_vcvt_dr},
              features = {ARM_FEATURE_V8},
              fp_excp_el = 0, vfp_enabled = True,
              v7m_lspact = False, v8m_fpccr_s_wrong = False, v7m_new_fp_ctxt_needed = False,
              v8m_secure = False, v8m_stackcheck = False,
              vec_len = 0, vec_stride = 0,
              is_jmp = DISAS_NEXT, cf_use_icount = False,
              pc_curr = 0x1000, pc_next = 0x1004, current_el = 1, is_user = False \<rparr>"

section \<open>System-register access framework\<close>

record arg_VMSR_VMRS =
  vmsr_l :: bool
  vmsr_reg :: nat
  vmsr_rt :: nat

record arg_vldr_sysreg =
  vldr_rn :: nat
  vldr_reg :: nat
  vldr_imm :: nat
  vldr_a :: bool
  vldr_w :: bool
  vldr_p :: bool

text \<open>
  The callbacks: \<open>fp_sysreg_storefn\<close> emits code that stores the temporary it is given to
  its destination, \<open>fp_sysreg_loadfn\<close> emits code that loads the value to be written and
  returns the temporary holding it.  The \<open>opaque\<close> pointer of the C callbacks is the
  argument record the function is applied to.
\<close>

type_synonym fp_sysreg_storefn = "tmp \<Rightarrow> DisasContext \<Rightarrow> DisasContext"
type_synonym fp_sysreg_loadfn = "DisasContext \<Rightarrow> tmp \<times> DisasContext"

datatype FPSysRegCheckResult =
  FPSysRegCheckFailed | FPSysRegCheckDone | FPSysRegCheckContinue

text \<open>
  The last statement of \<open>fp_sysreg_checks\<close>: every register but FPCXT_NS goes through
  \<open>vfp_access_check\<close>.
\<close>

definition fp_sysreg_checks_access ::
  "DisasContext \<Rightarrow> nat \<Rightarrow> (FPSysRegCheckResult \<times> DisasContext) option" where
  "fp_sysreg_checks_access s regno =
     (if regno \<noteq> ARM_VFP_FPCXT_NS then
        do {
          (ok, s) \<leftarrow> vfp_access_check s;
          if \<not> ok then Some (FPSysRegCheckDone, s) else Some (FPSysRegCheckContinue, s)
        }
      else Some (FPSysRegCheckContinue, s))"

definition fp_sysreg_checks ::
  "DisasContext \<Rightarrow> nat \<Rightarrow> (FPSysRegCheckResult \<times> DisasContext) option" where
  "fp_sysreg_checks s regno =
     (if \<not> dc_isar_feature Aa32_fpsp_v2 s then Some (FPSysRegCheckFailed, s)
      else if regno = ARM_VFP_FPSCR \<or> regno = QEMU_VFP_FPSCR_NZCV then
        fp_sysreg_checks_access s regno
      else if regno = ARM_VFP_FPSCR_NZCVQC then
        (if \<not> arm_dc_feature s ARM_FEATURE_V8_1M then Some (FPSysRegCheckFailed, s)
         else fp_sysreg_checks_access s regno)
      else if regno = ARM_VFP_FPCXT_S \<or> regno = ARM_VFP_FPCXT_NS then
        (if \<not> arm_dc_feature s ARM_FEATURE_V8_1M then Some (FPSysRegCheckFailed, s)
         else if \<not> v8m_secure s then Some (FPSysRegCheckFailed, s)
         else fp_sysreg_checks_access s regno)
      else Some (FPSysRegCheckFailed, s))"

definition tcg_invert_cond :: "tcg_cond \<Rightarrow> tcg_cond" where
  "tcg_invert_cond c = (case c of TCG_COND_EQ \<Rightarrow> TCG_COND_NE | TCG_COND_NE \<Rightarrow> TCG_COND_EQ)"

definition gen_branch_fpInactive :: "DisasContext \<Rightarrow> tcg_cond \<Rightarrow> label \<Rightarrow> DisasContext" where
  "gen_branch_fpInactive s cond lab =
     (let (aspen, s) = load_cpu_field V7M_FPCCR_NS s;
          (fpca, s) = load_cpu_field V7M_CONTROL_S s;
          s = emit (Andi_i32 aspen aspen R_V7M_FPCCR_ASPEN_MASK) s;
          s = emit (Xori_i32 aspen aspen R_V7M_FPCCR_ASPEN_MASK) s;
          s = emit (Andi_i32 fpca fpca R_V7M_CONTROL_FPCA_MASK) s;
          s = emit (Or_i32 fpca fpca aspen) s;
          s = emit (Brcondi_i32 (tcg_invert_cond cond) fpca 0 lab) s;
          s = temp_free aspen s
      in temp_free fpca s)"

text \<open>The body shared by the FPCXT_NS and FPCXT_S cases of the write (the fall through).\<close>

definition gen_M_fp_sysreg_write_fpcxt_s ::
  "DisasContext \<Rightarrow> fp_sysreg_loadfn \<Rightarrow> DisasContext" where
  "gen_M_fp_sysreg_write_fpcxt_s s loadfn =
     (let (tmp, s) = loadfn s;
          (sfpa, s) = temp_new s;
          s = emit (Shri_i32 sfpa tmp 31) s;
          (control, s) = load_cpu_field V7M_CONTROL_S s;
          s = emit (Deposit_i32 control control sfpa R_V7M_CONTROL_SFPA_SHIFT 1) s;
          s = store_cpu_field control V7M_CONTROL_S s;
          s = emit (Andi_i32 tmp tmp (NOT FPCR_NZCV_MASK)) s;
          s = gen_helper H_vfp_set_fpscr [tmp] s;
          s = temp_free tmp s
      in temp_free sfpa s)"

definition gen_M_fp_sysreg_write ::
  "DisasContext \<Rightarrow> nat \<Rightarrow> fp_sysreg_loadfn \<Rightarrow> (bool \<times> DisasContext) option" where
  "gen_M_fp_sysreg_write s regno loadfn =
     do {
       (chk, s) \<leftarrow> fp_sysreg_checks s regno;
       case chk of
         FPSysRegCheckFailed \<Rightarrow> Some (False, s)
       | FPSysRegCheckDone \<Rightarrow> Some (True, s)
       | FPSysRegCheckContinue \<Rightarrow>
           if regno = ARM_VFP_FPSCR then
             (let (tmp, s) = loadfn s;
                  s = gen_helper H_vfp_set_fpscr [tmp] s;
                  s = temp_free tmp s;
                  s = gen_lookup_tb s
              in Some (True, s))
           else if regno = ARM_VFP_FPSCR_NZCVQC then
             (let (tmp, s) = loadfn s;
                  s = emit (Andi_i32 tmp tmp FPCR_NZCV_MASK) s;
                  (fpscr, s) = load_cpu_field (VFP_XREGS ARM_VFP_FPSCR) s;
                  s = emit (Andi_i32 fpscr fpscr (NOT FPCR_NZCV_MASK)) s;
                  s = emit (Or_i32 fpscr fpscr tmp) s;
                  s = store_cpu_field fpscr (VFP_XREGS ARM_VFP_FPSCR) s;
                  s = temp_free tmp s
              in Some (True, s))
           else if regno = ARM_VFP_FPCXT_NS then
             (let (lab_end, s) = new_label s;
                  s = gen_branch_fpInactive s TCG_COND_NE lab_end;
                  s = gen_preserve_fp_state s;
                  s = gen_M_fp_sysreg_write_fpcxt_s s loadfn;
                  s = emit (Set_label lab_end) s
              in Some (True, s))
           else if regno = ARM_VFP_FPCXT_S then
             Some (True, gen_M_fp_sysreg_write_fpcxt_s s loadfn)
           else None
     }"

definition gen_M_fp_sysreg_read ::
  "DisasContext \<Rightarrow> nat \<Rightarrow> fp_sysreg_storefn \<Rightarrow> (bool \<times> DisasContext) option" where
  "gen_M_fp_sysreg_read s regno storefn =
     do {
       (chk, s) \<leftarrow> fp_sysreg_checks s regno;
       case chk of
         FPSysRegCheckFailed \<Rightarrow> Some (False, s)
       | FPSysRegCheckDone \<Rightarrow> Some (True, s)
       | FPSysRegCheckContinue \<Rightarrow>
           if regno = ARM_VFP_FPSCR then
             (let (tmp, s) = temp_new s;
                  s = gen_helper H_vfp_get_fpscr [tmp] s;
                  s = storefn tmp s
              in Some (True, s))
           else if regno = ARM_VFP_FPSCR_NZCVQC \<or> regno = QEMU_VFP_FPSCR_NZCV then
             (let (tmp, s) = load_cpu_field (VFP_XREGS ARM_VFP_FPSCR) s;
                  s = emit (Andi_i32 tmp tmp FPCR_NZCV_MASK) s;
                  s = storefn tmp s
              in Some (True, s))
           else if regno = ARM_VFP_FPCXT_S then
             (let (tmp, s) = temp_new s;
                  (sfpa, s) = temp_new s;
                  s = gen_helper H_vfp_get_fpscr [tmp] s;
                  s = emit (Andi_i32 tmp tmp (NOT FPCR_NZCV_MASK)) s;
                  (control, s) = load_cpu_field V7M_CONTROL_S s;
                  s = emit (Andi_i32 sfpa control R_V7M_CONTROL_SFPA_MASK) s;
                  s = emit (Shli_i32 sfpa sfpa (31 - R_V7M_CONTROL_SFPA_SHIFT)) s;
                  s = emit (Or_i32 tmp tmp sfpa) s;
                  s = temp_free sfpa s;
                  s = storefn tmp s;
                  s = emit (Andi_i32 control control (NOT R_V7M_CONTROL_SFPA_MASK)) s;
                  s = store_cpu_field control V7M_CONTROL_S s;
                  (fpscr, s) = load_cpu_field V7M_FPDSCR_NS s;
                  s = gen_helper H_vfp_set_fpscr [fpscr] s;
                  s = temp_free fpscr s;
                  s = gen_lookup_tb s
              in Some (True, s))
           else if regno = ARM_VFP_FPCXT_NS then
             (let (lab_active, s) = new_label s;
                  s = gen_branch_fpInactive s TCG_COND_EQ lab_active;
                  (tmp, s) = load_cpu_field V7M_FPDSCR_NS s;
                  s = storefn tmp s;
                  (lab_end, s) = new_label s;
                  s = emit (Br lab_end) s;
                  s = emit (Set_label lab_active) s;
                  s = gen_preserve_fp_state s;
                  (tmp, s) = temp_new s;
                  (sfpa, s) = temp_new s;
                  (fpscr, s) = temp_new s;
                  s = gen_helper H_vfp_get_fpscr [fpscr] s;
                  s = emit (Andi_i32 tmp fpscr (NOT FPCR_NZCV_MASK)) s;
                  (control, s) = load_cpu_field V7M_CONTROL_S s;
                  s = emit (Andi_i32 sfpa control R_V7M_CONTROL_SFPA_MASK) s;
                  s = emit (Shli_i32 sfpa sfpa (31 - R_V7M_CONTROL_SFPA_SHIFT)) s;
                  s = emit (Or_i32 tmp tmp sfpa) s;
                  s = temp_free control s;
                  s = storefn tmp s;
                  (fpdscr, s) = load_cpu_field V7M_FPDSCR_NS s;
                  (zero, s) = const_i32 0 s;
                  s = emit (Movcond_i32 TCG_COND_EQ fpscr sfpa zero fpdscr fpscr) s;
                  s = gen_helper H_vfp_set_fpscr [fpscr] s;
                  s = temp_free zero s;
                  s = temp_free sfpa s;
                  s = temp_free fpdscr s;
                  s = temp_free fpscr s;
                  s = emit (Set_label lab_end) s;
                  s = gen_lookup_tb s
              in Some (True, s))
           else None
     }"

definition fp_sysreg_to_gpr :: "arg_VMSR_VMRS \<Rightarrow> fp_sysreg_storefn" where
  "fp_sysreg_to_gpr a val s =
     (if vmsr_rt a = 15 then temp_free val (emit (Set_nzcv val) s)
      else store_reg (vmsr_rt a) val s)"

definition gpr_to_fp_sysreg :: "arg_VMSR_VMRS \<Rightarrow> fp_sysreg_loadfn" where
  "gpr_to_fp_sysreg a s = load_reg (vmsr_rt a) s"

definition fp_sysreg_to_memory :: "arg_vldr_sysreg \<Rightarrow> fp_sysreg_storefn" where
  "fp_sysreg_to_memory a val s =
     (let offset = (of_nat (vldr_imm a) :: u32);
          offset = (if \<not> vldr_a a then - offset else offset);
          (addr, s) = load_reg (vldr_rn a) s;
          s = (if vldr_p a then emit (Addi_i32 addr addr offset) s else s);
          s = (if v8m_stackcheck s \<and> vldr_rn a = 13 \<and> vldr_w a
               then gen_helper H_v8m_stackcheck [addr] s else s);
          s = emit (Aa32_st MO_32 val addr) s;
          s = temp_free val s
      in if vldr_w a then
           (let s = (if \<not> vldr_p a then emit (Addi_i32 addr addr offset) s else s)
            in store_reg (vldr_rn a) addr s)
         else temp_free addr s)"

definition memory_to_fp_sysreg :: "arg_vldr_sysreg \<Rightarrow> fp_sysreg_loadfn" where
  "memory_to_fp_sysreg a s =
     (let offset = (of_nat (vldr_imm a) :: u32);
          (val, s) = temp_new s;
          offset = (if \<not> vldr_a a then - offset else offset);
          (addr, s) = load_reg (vldr_rn a) s;
          s = (if vldr_p a then emit (Addi_i32 addr addr offset) s else s);
          s = (if v8m_stackcheck s \<and> vldr_rn a = 13 \<and> vldr_w a
               then gen_helper H_v8m_stackcheck [addr] s else s);
          s = emit (Aa32_ld MO_32 val addr) s;
          s = (if vldr_w a then
                 (let s = (if \<not> vldr_p a then emit (Addi_i32 addr addr offset) s else s)
                  in store_reg (vldr_rn a) addr s)
               else temp_free addr s)
      in (val, s))"

text \<open>
  Handlers that assign to a field of their argument record return the record as they
  leave it, next to the truth value and the context.
\<close>

text \<open>The last statement of \<open>gen_M_VMSR_VMRS\<close>: the read or the write.\<close>

definition gen_M_VMSR_VMRS_access ::
  "DisasContext \<Rightarrow> arg_VMSR_VMRS \<Rightarrow> (bool \<times> arg_VMSR_VMRS \<times> DisasContext) option" where
  "gen_M_VMSR_VMRS_access s a =
     (if vmsr_l a then
        map_option (\<lambda>(r, s). (r, a, s))
          (gen_M_fp_sysreg_read s (vmsr_reg a) (fp_sysreg_to_gpr a))
      else
        map_option (\<lambda>(r, s). (r, a, s))
          (gen_M_fp_sysreg_write s (vmsr_reg a) (gpr_to_fp_sysreg a)))"

definition gen_M_VMSR_VMRS ::
  "DisasContext \<Rightarrow> arg_VMSR_VMRS \<Rightarrow> (bool \<times> arg_VMSR_VMRS \<times> DisasContext) option" where
  "gen_M_VMSR_VMRS s a =
     (if vmsr_rt a = 15 then
        (if vmsr_l a \<and> vmsr_reg a = ARM_VFP_FPSCR
         then gen_M_VMSR_VMRS_access s (a\<lparr>vmsr_reg := QEMU_VFP_FPSCR_NZCV\<rparr>)
         else Some (False, a, s))
      else gen_M_VMSR_VMRS_access s a)"

text \<open>The first \<open>switch\<close> of \<open>trans_VMSR_VMRS\<close>: \<open>None\<close> for \<open>return false\<close>, otherwise
  the value of \<open>ignore_vfp_enabled\<close>.\<close>

definition vmsr_vmrs_decode :: "DisasContext \<Rightarrow> nat \<Rightarrow> bool option" where
  "vmsr_vmrs_decode s reg =
     (if reg = ARM_VFP_FPSID then
        (if is_user s \<and> dc_isar_feature Aa32_fpsp_v3 s then None else Some True)
      else if reg = ARM_VFP_MVFR0 \<or> reg = ARM_VFP_MVFR1 then
        (if is_user s \<or> \<not> arm_dc_feature s ARM_FEATURE_MVFR then None else Some True)
      else if reg = ARM_VFP_MVFR2 then
        (if is_user s \<or> \<not> arm_dc_feature s ARM_FEATURE_V8 then None else Some True)
      else if reg = ARM_VFP_FPSCR then Some False
      else if reg = ARM_VFP_FPEXC then
        (if is_user s then None else Some True)
      else if reg = ARM_VFP_FPINST \<or> reg = ARM_VFP_FPINST2 then
        (if is_user s \<or> dc_isar_feature Aa32_fpsp_v3 s then None else Some False)
      else None)"

text \<open>
  The \<open>switch\<close> of the VMRS branch: the temporary that holds the value read.  \<open>None\<close> is
  \<open>g_assert_not_reached()\<close>.
\<close>

definition trans_VMRS_value ::
  "DisasContext \<Rightarrow> arg_VMSR_VMRS \<Rightarrow> (tmp \<times> DisasContext) option" where
  "trans_VMRS_value s a =
     (if vmsr_reg a = ARM_VFP_MVFR0 \<or> vmsr_reg a = ARM_VFP_MVFR1
         \<or> vmsr_reg a = ARM_VFP_MVFR2 then
        (let s = (if current_el s = 1 then
                    (let s = emit Set_condexec s;
                         s = emit (Set_pc_im (pc_curr s)) s;
                         (tcg_reg, s) = const_i32 (of_nat (vmsr_reg a)) s;
                         (tcg_rt, s) = const_i32 (of_nat (vmsr_rt a)) s;
                         s = gen_helper H_check_hcr_el2_trap [tcg_rt, tcg_reg] s;
                         s = temp_free tcg_reg s
                     in temp_free tcg_rt s)
                  else s)
         in Some (load_cpu_field (VFP_XREGS (vmsr_reg a)) s))
      else if vmsr_reg a = ARM_VFP_FPSID \<or> vmsr_reg a = ARM_VFP_FPEXC
         \<or> vmsr_reg a = ARM_VFP_FPINST \<or> vmsr_reg a = ARM_VFP_FPINST2 then
        Some (load_cpu_field (VFP_XREGS (vmsr_reg a)) s)
      else if vmsr_reg a = ARM_VFP_FPSCR then
        (if vmsr_rt a = 15 then
           (let (tmp, s) = load_cpu_field (VFP_XREGS ARM_VFP_FPSCR) s
            in Some (tmp, emit (Andi_i32 tmp tmp FPCR_NZCV_MASK) s))
         else
           (let (tmp, s) = temp_new s
            in Some (tmp, gen_helper H_vfp_get_fpscr [tmp] s)))
      else None)"

text \<open>The \<open>switch\<close> of the VMSR branch.\<close>

definition trans_VMSR_write :: "DisasContext \<Rightarrow> arg_VMSR_VMRS \<Rightarrow> DisasContext option" where
  "trans_VMSR_write s a =
     (if vmsr_reg a = ARM_VFP_FPSID \<or> vmsr_reg a = ARM_VFP_MVFR0
         \<or> vmsr_reg a = ARM_VFP_MVFR1 \<or> vmsr_reg a = ARM_VFP_MVFR2 then
        Some s
      else if vmsr_reg a = ARM_VFP_FPSCR then
        (let (tmp, s) = load_reg (vmsr_rt a) s;
             s = gen_helper H_vfp_set_fpscr [tmp] s;
             s = temp_free tmp s
         in Some (gen_lookup_tb s))
      else if vmsr_reg a = ARM_VFP_FPEXC then
        (let (tmp, s) = load_reg (vmsr_rt a) s;
             s = emit (Andi_i32 tmp tmp (push_bit 30 1)) s;
             s = store_cpu_field tmp (VFP_XREGS (vmsr_reg a)) s
         in Some (gen_lookup_tb s))
      else if vmsr_reg a = ARM_VFP_FPINST \<or> vmsr_reg a = ARM_VFP_FPINST2 then
        (let (tmp, s) = load_reg (vmsr_rt a) s
         in Some (store_cpu_field tmp (VFP_XREGS (vmsr_reg a)) s))
      else None)"

definition trans_VMSR_VMRS ::
  "DisasContext \<Rightarrow> arg_VMSR_VMRS \<Rightarrow> (bool \<times> arg_VMSR_VMRS \<times> DisasContext) option" where
  "trans_VMSR_VMRS s a =
     (if arm_dc_feature s ARM_FEATURE_M then gen_M_VMSR_VMRS s a
      else if \<not> dc_isar_feature Aa32_fpsp_v2 s then Some (False, a, s)
      else
        (case vmsr_vmrs_decode s (vmsr_reg a) of
           None \<Rightarrow> Some (False, a, s)
         | Some ignore_vfp_enabled \<Rightarrow>
             do {
               (ok, s) \<leftarrow> full_vfp_access_check s ignore_vfp_enabled;
               if \<not> ok then Some (True, a, s)
               else if vmsr_l a then
                 do {
                   (tmp, s) \<leftarrow> trans_VMRS_value s a;
                   if vmsr_rt a = 15 then Some (True, a, temp_free tmp (emit (Set_nzcv tmp) s))
                   else Some (True, a, store_reg (vmsr_rt a) tmp s)
                 }
               else
                 do {
                   s \<leftarrow> trans_VMSR_write s a;
                   Some (True, a, s)
                 }
             }))"

definition trans_VLDR_sysreg :: "DisasContext \<Rightarrow> arg_vldr_sysreg \<Rightarrow> (bool \<times> DisasContext) option" where
  "trans_VLDR_sysreg s a =
     (if \<not> arm_dc_feature s ARM_FEATURE_V8_1M then Some (False, s)
      else if vldr_rn a = 15 then Some (False, s)
      else gen_M_fp_sysreg_write s (vldr_reg a) (memory_to_fp_sysreg a))"

definition trans_VSTR_sysreg :: "DisasContext \<Rightarrow> arg_vldr_sysreg \<Rightarrow> (bool \<times> DisasContext) option" where
  "trans_VSTR_sysreg s a =
     (if \<not> arm_dc_feature s ARM_FEATURE_V8_1M then Some (False, s)
      else if vldr_rn a = 15 then Some (False, s)
      else gen_M_fp_sysreg_read s (vldr_reg a) (fp_sysreg_to_memory a))"

section \<open>Coprocessor check\<close>




section \<open>Multi-register block transfer\<close>

record arg_VLDM_VSTM =
  vldm_l :: bool
  vldm_rn :: nat
  vldm_vd :: nat
  vldm_imm :: nat
  vldm_p :: bool
  vldm_w :: bool

text \<open>One pass through the body of the transfer loop, for register \<open>vd + i\<close>.\<close>

definition vldm_vstm_sp_step ::
  "arg_VLDM_VSTM \<Rightarrow> tmp \<Rightarrow> tmp \<Rightarrow> u32 \<Rightarrow> DisasContext \<Rightarrow> nat \<Rightarrow> DisasContext" where
  "vldm_vstm_sp_step a addr tmp offset s i =
     (let s = (if vldm_l a then
                 vfp_store_reg32 tmp (of_nat (vldm_vd a + i)) (emit (Aa32_ld MO_32 tmp addr) s)
               else
                 emit (Aa32_st MO_32 tmp addr) (vfp_load_reg32 tmp (of_nat (vldm_vd a + i)) s))
      in emit (Addi_i32 addr addr offset) s)"

definition trans_VLDM_VSTM_sp ::
  "DisasContext \<Rightarrow> arg_VLDM_VSTM \<Rightarrow> (bool \<times> DisasContext) option" where
  "trans_VLDM_VSTM_sp s a =
     (if \<not> dc_isar_feature Aa32_fpsp_v2 s then Some (False, s)
      else
        (let n = vldm_imm a
         in if n = 0 \<or> vldm_vd a + n > 32 then Some (False, s)
            else if vldm_rn a = 15 \<and> vldm_w a then Some (False, s)
            else do {
              (ok, s) \<leftarrow> vfp_access_check s;
              if \<not> ok then Some (True, s)
              else
                (let (addr, s) = add_reg_for_lit (vldm_rn a) 0 s;
                     s = (if vldm_p a
                          then emit (Addi_i32 addr addr (- (push_bit 2 (of_nat (vldm_imm a))))) s
                          else s);
                     s = (if v8m_stackcheck s \<and> vldm_rn a = 13 \<and> vldm_w a
                          then gen_helper H_v8m_stackcheck [addr] s else s);
                     offset = (4 :: u32);
                     (tmp, s) = temp_new s;
                     s = foldl (vldm_vstm_sp_step a addr tmp offset) s [0..<n];
                     s = temp_free tmp s
                 in if vldm_w a then
                      (let s = (if vldm_p a
                                then emit (Addi_i32 addr addr (- offset * of_nat n)) s
                                else s)
                       in Some (True, store_reg (vldm_rn a) addr s))
                    else Some (True, temp_free addr s))
            }))"

definition vldm_vstm_dp_step ::
  "arg_VLDM_VSTM \<Rightarrow> tmp \<Rightarrow> tmp \<Rightarrow> u32 \<Rightarrow> DisasContext \<Rightarrow> nat \<Rightarrow> DisasContext" where
  "vldm_vstm_dp_step a addr tmp offset s i =
     (let s = (if vldm_l a then
                 vfp_store_reg64 tmp (of_nat (vldm_vd a + i)) (emit (Aa32_ld MO_64 tmp addr) s)
               else
                 emit (Aa32_st MO_64 tmp addr) (vfp_load_reg64 tmp (of_nat (vldm_vd a + i)) s))
      in emit (Addi_i32 addr addr offset) s)"

definition trans_VLDM_VSTM_dp ::
  "DisasContext \<Rightarrow> arg_VLDM_VSTM \<Rightarrow> (bool \<times> DisasContext) option" where
  "trans_VLDM_VSTM_dp s a =
     (if \<not> dc_isar_feature Aa32_fpsp_v2 s then Some (False, s)
      else
        (let n = vldm_imm a div 2
         in if n = 0 \<or> vldm_vd a + n > 32 \<or> n > 16 then Some (False, s)
            else if vldm_rn a = 15 \<and> vldm_w a then Some (False, s)
            else if \<not> dc_isar_feature Aa32_simd_r32 s \<and> vldm_vd a + n > 16 then Some (False, s)
            else do {
              (ok, s) \<leftarrow> vfp_access_check s;
              if \<not> ok then Some (True, s)
              else
                (let (addr, s) = add_reg_for_lit (vldm_rn a) 0 s;
                     s = (if vldm_p a
                          then emit (Addi_i32 addr addr (- (push_bit 2 (of_nat (vldm_imm a))))) s
                          else s);
                     s = (if v8m_stackcheck s \<and> vldm_rn a = 13 \<and> vldm_w a
                          then gen_helper H_v8m_stackcheck [addr] s else s);
                     offset = (8 :: u32);
                     (tmp, s) = temp_new s;
                     s = foldl (vldm_vstm_dp_step a addr tmp offset) s [0..<n];
                     s = temp_free tmp s
                 in if vldm_w a then
                      (let offset = (if vldm_p a then - offset * of_nat n
                                     else if odd (vldm_imm a) then 4
                                     else 0);
                           s = (if offset \<noteq> 0 then emit (Addi_i32 addr addr offset) s else s)
                       in Some (True, store_reg (vldm_rn a) addr s))
                    else Some (True, temp_free addr s))
            }))"

section \<open>Instructions with an explicit rounding mode\<close>












section \<open>Run-time meaning of the emitted operations\<close>

text \<open>
  The translator never touches processor state; the operations it emits do, when they are
  executed.  \<open>cpu_state\<close> is the part of the processor state those operations reach: the
  general registers, the flags, the register bank (32 double-precision slots, single
  precision register \<open>n\<close> being the low or high half of slot \<open>n div 2\<close>), the fields of
  \<open>CPUARMState\<close> that \<open>load_cpu_field\<close> and \<open>store_cpu_field\<close> address, the rounding mode
  and the exception flags of the two floating-point status words, and memory, one 32-bit
  word per address.
\<close>

record cpu_state =
  regs :: "nat \<Rightarrow> u32"
  nzcv :: u32
  vfp_regs :: "nat \<Rightarrow> u64"
  cpu_fields :: "cpu_field \<Rightarrow> u32"
  rmode :: "fpst \<Rightarrow> u32"
  fpflags :: "fpst \<Rightarrow> u32"
  mem :: "u32 \<Rightarrow> u32"

text \<open>The machine that runs the operations adds the values of the temporaries.\<close>

record machine =
  cpu :: cpu_state
  t32 :: "tmp \<Rightarrow> u32"
  t64 :: "tmp \<Rightarrow> u64"
  tptr :: "tmp \<Rightarrow> fpst"

text \<open>
  The helpers are functions of the emulator outside the translator, so their meaning is a
  parameter.  \<open>env_call\<close> is a helper that receives \<open>cpu_env\<close>: from its arguments and the
  processor state it gives a result and a new state, or \<open>None\<close> when it raises an
  exception.  \<open>fp_call\<close> is an operation of the floating-point library: from its operands,
  the rounding mode and the exception flags of the status word it is given, it computes a
  result and new exception flags.  \<open>mem_fault\<close> tells whether an access faults.
\<close>

record helpers =
  env_call :: "helper \<Rightarrow> u32 list \<Rightarrow> cpu_state \<Rightarrow> (u32 \<times> cpu_state) option"
  fp_call :: "helper \<Rightarrow> u64 list \<Rightarrow> u32 \<Rightarrow> u32 \<Rightarrow> u64 \<times> u32"
  mem_fault :: "memop \<Rightarrow> u32 \<Rightarrow> bool"

datatype step_result = Next machine | Jump label machine | Raise machine | Bad

definition tcg_cond_holds :: "tcg_cond \<Rightarrow> u32 \<Rightarrow> u32 \<Rightarrow> bool" where
  "tcg_cond_holds c x y = (case c of TCG_COND_EQ \<Rightarrow> x = y | TCG_COND_NE \<Rightarrow> x \<noteq> y)"

definition set_t32 :: "tmp \<Rightarrow> u32 \<Rightarrow> machine \<Rightarrow> machine" where
  "set_t32 t v m = m\<lparr>t32 := (t32 m)(t := v)\<rparr>"

definition set_t64 :: "tmp \<Rightarrow> u64 \<Rightarrow> machine \<Rightarrow> machine" where
  "set_t64 t v m = m\<lparr>t64 := (t64 m)(t := v)\<rparr>"

definition read_sreg :: "cpu_state \<Rightarrow> u32 \<Rightarrow> u32" where
  "read_sreg c r = ucast (drop_bit (32 * (unat r mod 2)) (vfp_regs c (unat r div 2)))"

definition write_sreg :: "u32 \<Rightarrow> u32 \<Rightarrow> cpu_state \<Rightarrow> cpu_state" where
  "write_sreg r v c =
     (let d = vfp_regs c (unat r div 2);
          d' = (if even (unat r) then (d AND NOT (mask 32)) OR ucast v
                else (d AND mask 32) OR push_bit 32 (ucast v))
      in c\<lparr>vfp_regs := (vfp_regs c)(unat r div 2 := d')\<rparr>)"

definition read_mem64 :: "cpu_state \<Rightarrow> u32 \<Rightarrow> u64" where
  "read_mem64 c a = ucast (mem c a) OR push_bit 32 (ucast (mem c (a + 4)))"

definition write_mem64 :: "u32 \<Rightarrow> u64 \<Rightarrow> cpu_state \<Rightarrow> cpu_state" where
  "write_mem64 a v c = c\<lparr>mem := (mem c)(a := ucast v, a + 4 := ucast (drop_bit 32 v))\<rparr>"

text \<open>A floating-point helper on 32-bit temporaries: result, operands, status pointer.\<close>

definition fp_helper32 :: "helpers \<Rightarrow> helper \<Rightarrow> tmp \<Rightarrow> tmp list \<Rightarrow> tmp \<Rightarrow> machine \<Rightarrow> machine" where
  "fp_helper32 H h ret args p m =
     (let f = tptr m p;
          (v, fl) = fp_call H h (map (\<lambda>t. ucast (t32 m t)) args) (rmode (cpu m) f) (fpflags (cpu m) f)
      in set_t32 ret (ucast v) (m\<lparr>cpu := (cpu m)\<lparr>fpflags := (fpflags (cpu m))(f := fl)\<rparr>\<rparr>))"

text \<open>The same on 64-bit temporaries; \<open>args32\<close> are further 32-bit operands.\<close>

definition fp_helper64 ::
  "helpers \<Rightarrow> helper \<Rightarrow> tmp \<Rightarrow> tmp list \<Rightarrow> tmp list \<Rightarrow> tmp \<Rightarrow> machine \<Rightarrow> machine" where
  "fp_helper64 H h ret args args32 p m =
     (let f = tptr m p;
          (v, fl) = fp_call H h (map (t64 m) args @ map (\<lambda>t. ucast (t32 m t)) args32)
                      (rmode (cpu m) f) (fpflags (cpu m) f)
      in set_t64 ret v (m\<lparr>cpu := (cpu m)\<lparr>fpflags := (fpflags (cpu m))(f := fl)\<rparr>\<rparr>))"

definition env_helper :: "helpers \<Rightarrow> helper \<Rightarrow> tmp option \<Rightarrow> tmp list \<Rightarrow> machine \<Rightarrow> step_result" where
  "env_helper H h ret args m =
     (case env_call H h (map (t32 m) args) (cpu m) of
        None \<Rightarrow> Raise m
      | Some (v, c) \<Rightarrow>
          (case ret of
             None \<Rightarrow> Next (m\<lparr>cpu := c\<rparr>)
           | Some r \<Rightarrow> Next (set_t32 r v (m\<lparr>cpu := c\<rparr>))))"

text \<open>
  One helper call.  The argument list is the one of the C call without \<open>tcg_ctx\<close> and
  \<open>cpu_env\<close>: for a helper with a result the first temporary receives it.  A call whose
  argument list does not fit the helper is \<open>Bad\<close>.
\<close>

definition helper_step :: "helpers \<Rightarrow> helper \<Rightarrow> tmp list \<Rightarrow> machine \<Rightarrow> step_result" where
  "helper_step H h args m =
     (case args of
        [] \<Rightarrow>
          (if h = H_v7m_preserve_fp_state then env_helper H h None [] m else Bad)
      | [x] \<Rightarrow>
          (if h = H_vfp_get_fpscr then env_helper H h (Some x) [] m
           else if h = H_vfp_set_fpscr \<or> h = H_v8m_stackcheck then env_helper H h None [x] m
           else Bad)
      | [ret, x] \<Rightarrow>
          (if h = H_vfp_negh then Next (set_t32 ret (t32 m x XOR 0x8000) m)
           else if h = H_vfp_negs then Next (set_t32 ret (t32 m x XOR 0x80000000) m)
           else if h = H_vfp_negd then Next (set_t64 ret (t64 m x XOR 0x8000000000000000) m)
           else if h = H_vfp_absh then Next (set_t32 ret (t32 m x AND 0x7fff) m)
           else if h = H_vfp_abss then Next (set_t32 ret (t32 m x AND 0x7fffffff) m)
           else if h = H_vfp_absd then Next (set_t64 ret (t64 m x AND 0x7fffffffffffffff) m)
           else if h = H_check_hcr_el2_trap then env_helper H h None [ret, x] m
           else Bad)
      | [ret, x, p] \<Rightarrow>
          (if h = H_set_rmode then
             (let f = tptr m p;
                  old = rmode (cpu m) f;
                  m = m\<lparr>cpu := (cpu m)\<lparr>rmode := (rmode (cpu m))(f := t32 m x)\<rparr>\<rparr>
              in Next (set_t32 ret old m))
           else if h = H_rinth \<or> h = H_rints then Next (fp_helper32 H h ret [x] p m)
           else if h = H_rintd then Next (fp_helper64 H h ret [x] [] p m)
           else Bad)
      | [ret, x, y, p] \<Rightarrow>
          (if h = H_vfp_toslh \<or> h = H_vfp_toulh \<or> h = H_vfp_tosls \<or> h = H_vfp_touls
              \<or> h = H_vfp_muls \<or> h = H_vfp_adds
           then Next (fp_helper32 H h ret [x, y] p m)
           else if h = H_vfp_tosld \<or> h = H_vfp_tould then Next (fp_helper64 H h ret [x] [y] p m)
           else Bad)
      | [ret, x, y, z, p] \<Rightarrow>
          (if h = H_vfp_muladdh \<or> h = H_vfp_muladds then Next (fp_helper32 H h ret [x, y, z] p m)
           else if h = H_vfp_muladdd then Next (fp_helper64 H h ret [x, y, z] [] p m)
           else Bad)
      | _ \<Rightarrow> Bad)"

fun step :: "helpers \<Rightarrow> op \<Rightarrow> machine \<Rightarrow> step_result" where
  "step H (Movi_i32 t v) m = Next (set_t32 t v m)"
| "step H (Mov_i32 d a) m = Next (set_t32 d (t32 m a) m)"
| "step H (Mov_i64 d a) m = Next (set_t64 d (t64 m a) m)"
| "step H (Andi_i32 d a v) m = Next (set_t32 d (t32 m a AND v) m)"
| "step H (Ori_i32 d a v) m = Next (set_t32 d (t32 m a OR v) m)"
| "step H (Xori_i32 d a v) m = Next (set_t32 d (t32 m a XOR v) m)"
| "step H (Addi_i32 d a v) m = Next (set_t32 d (t32 m a + v) m)"
| "step H (Shli_i32 d a n) m = Next (set_t32 d (push_bit n (t32 m a)) m)"
| "step H (Shri_i32 d a n) m = Next (set_t32 d (drop_bit n (t32 m a)) m)"
| "step H (Or_i32 d a b) m = Next (set_t32 d (t32 m a OR t32 m b) m)"
| "step H (Deposit_i32 d a b ofs len) m =
     Next (set_t32 d ((t32 m a AND NOT (push_bit ofs (mask len)))
                      OR push_bit ofs (t32 m b AND mask len)) m)"
| "step H (Movcond_i32 c d c1 c2 v1 v2) m =
     Next (set_t32 d (if tcg_cond_holds c (t32 m c1) (t32 m c2) then t32 m v1 else t32 m v2) m)"
| "step H (Extrl_i64_i32 d a) m = Next (set_t32 d (ucast (t64 m a)) m)"
| "step H (Brcondi_i32 c a v l) m = (if tcg_cond_holds c (t32 m a) v then Jump l m else Next m)"
| "step H (Br l) m = Jump l m"
| "step H (Set_label l) m = Next m"
| "step H (Ld_cpu_field t f) m = Next (set_t32 t (cpu_fields (cpu m) f) m)"
| "step H (St_cpu_field t f) m =
     Next (m\<lparr>cpu := (cpu m)\<lparr>cpu_fields := (cpu_fields (cpu m))(f := t32 m t)\<rparr>\<rparr>)"
| "step H (Load_reg t r) m = Next (set_t32 t (regs (cpu m) r) m)"
| "step H (Store_reg r t) m = Next (m\<lparr>cpu := (cpu m)\<lparr>regs := (regs (cpu m))(r := t32 m t)\<rparr>\<rparr>)"
| "step H (Set_nzcv t) m = Next (m\<lparr>cpu := (cpu m)\<lparr>nzcv := t32 m t AND 0xf0000000\<rparr>\<rparr>)"
| "step H (Add_reg_for_lit t r ofs) m =
     Next (set_t32 t ((if r = 15 then regs (cpu m) r AND NOT 3 else regs (cpu m) r) + ofs) m)"
| "step H (Vfp_load_reg32 t r) m = Next (set_t32 t (read_sreg (cpu m) r) m)"
| "step H (Vfp_store_reg32 t r) m = Next (m\<lparr>cpu := write_sreg r (t32 m t) (cpu m)\<rparr>)"
| "step H (Vfp_load_reg64 t r) m = Next (set_t64 t (vfp_regs (cpu m) (unat r)) m)"
| "step H (Vfp_store_reg64 t r) m =
     Next (m\<lparr>cpu := (cpu m)\<lparr>vfp_regs := (vfp_regs (cpu m))(unat r := t64 m t)\<rparr>\<rparr>)"
| "step H (Fpstatus_ptr t f) m = Next (m\<lparr>tptr := (tptr m)(t := f)\<rparr>)"
| "step H (Gen_helper h args) m = helper_step H h args m"
| "step H (Aa32_ld mo v a) m =
     (if mem_fault H mo (t32 m a) then Raise m
      else case mo of
             MO_32 \<Rightarrow> Next (set_t32 v (mem (cpu m) (t32 m a)) m)
           | MO_64 \<Rightarrow> Next (set_t64 v (read_mem64 (cpu m) (t32 m a)) m))"
| "step H (Aa32_st mo v a) m =
     (if mem_fault H mo (t32 m a) then Raise m
      else case mo of
             MO_32 \<Rightarrow> Next (m\<lparr>cpu := (cpu m)\<lparr>mem := (mem (cpu m))(t32 m a := t32 m v)\<rparr>\<rparr>)
           | MO_64 \<Rightarrow> Next (m\<lparr>cpu := write_mem64 (t32 m a) (t64 m v) (cpu m)\<rparr>))"
| "step H (Exception_insn pc e syn el) m = Raise m"
| "step H Unallocated_encoding m = Raise m"
| "step H (Lookup_tb pc) m = Next (m\<lparr>cpu := (cpu m)\<lparr>regs := (regs (cpu m))(15 := pc)\<rparr>\<rparr>)"
| "step H Io_start m = Next m"
| "step H Set_condexec m = Next m"
| "step H (Set_pc_im pc) m = Next (m\<lparr>cpu := (cpu m)\<lparr>regs := (regs (cpu m))(15 := pc)\<rparr>\<rparr>)"
| "step H (Temp_free t) m = Next m"

datatype exec_result = Done machine | Raised machine | Stuck

text \<open>
  Running a sequence of operations.  The second argument is the label a taken branch is
  heading for: the operations up to that label are skipped (the translator only emits
  forward branches).  A sequence that ends while a branch is pending is \<open>Stuck\<close>.
\<close>

fun exec :: "helpers \<Rightarrow> op list \<Rightarrow> label option \<Rightarrow> machine \<Rightarrow> exec_result" where
  "exec H [] None m = Done m"
| "exec H [] (Some l) m = Stuck"
| "exec H (x # xs) (Some l) m =
     (if x = Set_label l then exec H xs None m else exec H xs (Some l) m)"
| "exec H (x # xs) None m =
     (case step H x m of
        Next m' \<Rightarrow> exec H xs None m'
      | Jump l m' \<Rightarrow> exec H xs (Some l) m'
      | Raise m' \<Rightarrow> Raised m'
      | Bad \<Rightarrow> Stuck)"

text \<open>The operations a handler appended to the buffer of \<open>s\<close> on the way to \<open>s'\<close>.\<close>

definition emitted :: "DisasContext \<Rightarrow> DisasContext \<Rightarrow> op list" where
  "emitted s s' = drop (length (ops (tcg_ctx s))) (ops (tcg_ctx s'))"


section \<open>Example contexts and machines\<close>


text \<open>Helpers that never raise and never fault.\<close>

definition quiet_helpers :: helpers where
  "quiet_helpers = \<lparr> env_call = (\<lambda>h args c. Some (0, c)),
                      fp_call = (\<lambda>h args rm fl. (0, fl)),
                      mem_fault = (\<lambda>mo a. False) \<rparr>"

text \<open>A machine with every register, field and memory word \<open>0\<close> but for the base
  register \<open>r0 = 0x2000\<close> and the rounding mode \<open>1\<close> of both status words.\<close>

definition machine0 :: machine where
  "machine0 = \<lparr> cpu = \<lparr> regs = (\<lambda>r. 0)(0 := 0x2000), nzcv = 0, vfp_regs = (\<lambda>r. 0),
                          cpu_fields = (\<lambda>f. 0), rmode = (\<lambda>f. 1), fpflags = (\<lambda>f. 0),
                          mem = (\<lambda>a. 0) \<rparr>,
                 t32 = (\<lambda>t. 0), t64 = (\<lambda>t. 0), tptr = (\<lambda>t. FPST_FPCR) \<rparr>"

text \<open>What a handler returned and the op buffer it left.\<close>

definition handled_ops :: "(bool \<times> DisasContext) option \<Rightarrow> (bool \<times> op list) option" where
  "handled_ops res = map_option (\<lambda>(b, s). (b, ops (tcg_ctx s))) res"

text \<open>
  The value of general register \<open>r\<close> after the code that a handler appended to the buffer
  of \<open>s1\<close> has run on \<open>m\<close>; \<open>None\<close> if the handler did not report the instruction as handled
  or the code did not run to its end.
\<close>

definition final_reg ::
  "helpers \<Rightarrow> DisasContext \<Rightarrow> (bool \<times> DisasContext) option \<Rightarrow> machine \<Rightarrow> nat \<Rightarrow> u32 option" where
  "final_reg H s1 res m r =
     (case res of
        Some (True, s') \<Rightarrow>
          (case exec H (emitted s1 s') None m of
             Done m' \<Rightarrow> Some (regs (cpu m') r)
           | _ \<Rightarrow> None)
      | _ \<Rightarrow> None)"

text \<open>Helpers under which nothing faults and the stack-limit check passes.\<close>

definition no_faults :: "helpers \<Rightarrow> bool" where
  "no_faults H =
     ((\<forall>mo a. \<not> mem_fault H mo a)
      \<and> (\<forall>args c. env_call H H_v8m_stackcheck args c = Some (0, c)))"

text \<open>The operations of one pass through the transfer loop.\<close>

definition vldm_vstm_sp_step_ops :: "arg_VLDM_VSTM \<Rightarrow> tmp \<Rightarrow> tmp \<Rightarrow> u32 \<Rightarrow> nat \<Rightarrow> op list" where
  "vldm_vstm_sp_step_ops a addr tmp offset i =
     (if vldm_l a
      then [Aa32_ld MO_32 tmp addr, Vfp_store_reg32 tmp (of_nat (vldm_vd a + i))]
      else [Vfp_load_reg32 tmp (of_nat (vldm_vd a + i)), Aa32_st MO_32 tmp addr])
     @ [Addi_i32 addr addr offset]"

definition vldm_vstm_dp_step_ops :: "arg_VLDM_VSTM \<Rightarrow> tmp \<Rightarrow> tmp \<Rightarrow> u32 \<Rightarrow> nat \<Rightarrow> op list" where
  "vldm_vstm_dp_step_ops a addr tmp offset i =
     (if vldm_l a
      then [Aa32_ld MO_64 tmp addr, Vfp_store_reg64 tmp (of_nat (vldm_vd a + i))]
      else [Vfp_load_reg64 tmp (of_nat (vldm_vd a + i)), Aa32_st MO_64 tmp addr])
     @ [Addi_i32 addr addr offset]"

section \<open>Unfolding rules\<close>

lemmas vfp_regno_defs =
  ARM_VFP_FPSID_def ARM_VFP_FPSCR_def ARM_VFP_FPSCR_NZCVQC_def ARM_VFP_MVFR2_def
  ARM_VFP_MVFR1_def ARM_VFP_MVFR0_def ARM_VFP_FPEXC_def ARM_VFP_FPINST_def
  ARM_VFP_FPINST2_def ARM_VFP_FPCXT_NS_def ARM_VFP_FPCXT_S_def QEMU_VFP_FPSCR_NZCV_def

lemmas tcg_prim_defs =
  tcg_emit_def tcg_temp_new_def tcg_temp_free_def gen_new_label_def tcg_const_i32_def
  fpstatus_ptr_def

lemmas prim_defs =
  emit_def temp_new_def temp_free_def new_label_def const_i32_def get_fpstatus_ptr_def
  load_cpu_field_def store_cpu_field_def load_reg_def store_reg_def add_reg_for_lit_def
  gen_exception_insn_def unallocated_encoding_def gen_lookup_tb_def gen_helper_def
  tcg_prim_defs

section \<open>Properties of register addressing\<close>

lemma seven_is_mask: "(7 :: u32) = mask 3"
  by (simp add: mask_eq_exp_minus_1)

lemma three_is_mask: "(3 :: u32) = mask 2"
  by (simp add: mask_eq_exp_minus_1)

lemma splice_low: "((y AND mask n) OR (r AND NOT (mask n))) AND mask n = y AND mask n"
  for y r :: u32
  by (rule bit_eqI) (auto simp add: bit_simps)

lemma splice_high:
  "((y AND mask n) OR (r AND NOT (mask n))) AND NOT (mask n) = r AND NOT (mask n)"
  for y r :: u32
  by (rule bit_eqI) (auto simp add: bit_simps)

lemma splice_same: "(r AND mask n) OR (r AND NOT (mask n)) = r"
  for r :: u32
  by (rule bit_eqI) (auto simp add: bit_simps)

lemma splice_add_low:
  "(((y AND mask n) OR (r AND NOT (mask n))) + e) AND mask n = (y + e) AND mask n"
  for y r e :: u32
  by (metis (no_types, lifting) splice_low mask_eqs(1))

lemma advance_back:
  "(((((r + d) AND mask n) OR (r AND NOT (mask n))) + (- d)) AND mask n)
     OR ((((r + d) AND mask n) OR (r AND NOT (mask n))) AND NOT (mask n)) = r"
  for r d :: u32
proof -
  have "((((r + d) AND mask n) OR (r AND NOT (mask n))) + (- d)) AND mask n
          = ((r + d) + (- d)) AND mask n"
    by (rule splice_add_low)
  then have low: "((((r + d) AND mask n) OR (r AND NOT (mask n))) + (- d)) AND mask n
          = r AND mask n"
    by simp
  show ?thesis
    unfolding low splice_high by (rule splice_same)
qed

text \<open>
  C8.  Advancing a register number by \<open>d\<close> and then by \<open>- d\<close> gives the number back, for
  single and for double precision, and an advance leaves every bit above the low three
  (single precision) or the low two (double precision) as it was.
\<close>

theorem vfp_advance_roundtrip_and_bank:
  "vfp_advance_sreg (vfp_advance_sreg reg d) (- d) = reg
   \<and> vfp_advance_dreg (vfp_advance_dreg reg d) (- d) = reg
   \<and> vfp_advance_sreg reg d AND NOT 0x7 = reg AND NOT 0x7
   \<and> vfp_advance_dreg reg d AND NOT 0x3 = reg AND NOT 0x3"
  unfolding vfp_advance_sreg_def vfp_advance_dreg_def seven_is_mask three_is_mask
  by (intro conjI advance_back splice_high)

lemmas template_defs =
  do_vfp_2op_dp_def do_vfp_2op_sp_def do_vfp_3op_sp_def vfp_access_check_def
  full_vfp_access_check_def dc_isar_feature_def arm_dc_feature_def
  vfp_load_reg32_def vfp_store_reg32_def vfp_load_reg64_def vfp_store_reg64_def call_fn_def
  vfp_sreg_is_scalar_def vfp_dreg_is_scalar_def vfp_advance_sreg_def vfp_advance_dreg_def
  vfp_3op_sp_body_def

section \<open>The access check leaves the configuration alone\<close>

lemma gen_preserve_fp_state_frame:
  "vec_len (gen_preserve_fp_state s) = vec_len s
   \<and> vec_stride (gen_preserve_fp_state s) = vec_stride s
   \<and> isar (gen_preserve_fp_state s) = isar s
   \<and> features (gen_preserve_fp_state s) = features s
   \<and> v8m_secure (gen_preserve_fp_state s) = v8m_secure s
   \<and> v8m_stackcheck (gen_preserve_fp_state s) = v8m_stackcheck s
   \<and> v8m_fpccr_s_wrong (gen_preserve_fp_state s) = v8m_fpccr_s_wrong s
   \<and> v7m_new_fp_ctxt_needed (gen_preserve_fp_state s) = v7m_new_fp_ctxt_needed s
   \<and> pc_curr (gen_preserve_fp_state s) = pc_curr s
   \<and> pc_next (gen_preserve_fp_state s) = pc_next s"
  by (simp add: gen_preserve_fp_state_def prim_defs Let_def)

lemma full_vfp_access_check_frame:
  assumes "full_vfp_access_check s ign = Some (ok, s1)"
  shows "vec_len s1 = vec_len s \<and> vec_stride s1 = vec_stride s
         \<and> isar s1 = isar s \<and> features s1 = features s
         \<and> v8m_secure s1 = v8m_secure s \<and> v8m_stackcheck s1 = v8m_stackcheck s
         \<and> pc_curr s1 = pc_curr s \<and> pc_next s1 = pc_next s"
  using assms
  by (auto simp add: full_vfp_access_check_def gen_preserve_fp_state_frame prim_defs Let_def
        split_def split: if_splits)

section \<open>The two-operand templates\<close>

text \<open>
  C1.  \<open>do_vfp_2op_dp\<close> at vector length 2 (\<open>vec_len = 1\<close>), stride 1, destination d4 and
  source d8, both outside the scalar banks: the second iteration stores to d9 and loads d8
  again, where advancing each register from its own previous value gives d5 and d9.  The
  single-precision template at s8 and s16 stores to s9 and loads s17.
\<close>

theorem do_vfp_2op_dp_second_iteration:
  "map_option (\<lambda>(b, s). (b, ops (tcg_ctx s)))
     (trans_VMOV_reg_dp (ctx0\<lparr>vec_len := 1\<rparr>) \<lparr>a_vd = 4, a_vm = 8\<rparr>)
   = Some (True, [Vfp_load_reg64 0 8, Mov_i64 1 0, Vfp_store_reg64 1 4,
                  Vfp_load_reg64 0 8, Mov_i64 1 0, Vfp_store_reg64 1 9,
                  Temp_free 0, Temp_free 1])
   \<and> map_option (\<lambda>(b, s). (b, ops (tcg_ctx s)))
     (trans_VMOV_reg_sp (ctx0\<lparr>vec_len := 1\<rparr>) \<lparr>a_vd = 8, a_vm = 16\<rparr>)
   = Some (True, [Vfp_load_reg32 0 16, Mov_i32 1 0, Vfp_store_reg32 1 8,
                  Vfp_load_reg32 0 17, Mov_i32 1 0, Vfp_store_reg32 1 9,
                  Temp_free 0, Temp_free 1])"
  by (simp add: trans_VMOV_reg_dp_def trans_VMOV_reg_sp_def ctx0_def template_defs prim_defs
        tcg_gen_mov_i64_def tcg_gen_mov_i32_def Let_def)

section \<open>The three-operand template\<close>

lemma stride_delta_nonzero: "stride \<le> 3 \<Longrightarrow> (of_nat stride + 1 :: u32) \<noteq> 0"
proof -
  assume "stride \<le> 3"
  then have "stride = 0 \<or> stride = 1 \<or> stride = 2 \<or> stride = 3" by arith
  then show ?thesis by auto
qed

lemma vfp_3op_sp_loop_refines:
  assumes "(of_nat stride + 1 :: u32) \<noteq> 0"
  shows "vfp_3op_sp_loop fn rv (of_nat stride + 1) (if ms then 0 else of_nat stride + 1)
           f0 f1 fd fpst k vd vn vm s
         = foldl (\<lambda>s r. emit_binary_apply fn rv f0 f1 fd fpst r (emit_binary_reload ms f0 f1 r s))
             (emit_binary_apply fn rv f0 f1 fd fpst (vd, vn, vm) s)
             (emit_binary_operands k stride ms (emit_binary_next stride ms (vd, vn, vm)))"
  using assms
proof (induction k arbitrary: vd vn vm s)
  case 0
  show ?case
    by (simp add: vfp_3op_sp_body_def emit_binary_apply_def Let_def)
next
  case (Suc k)
  show ?case
    using Suc.prems
    by (simp add: Suc.IH vfp_3op_sp_body_def emit_binary_apply_def emit_binary_reload_def
                  emit_binary_next_def Let_def)
qed

lemma emit_binary_operands_numeral:
  "emit_binary_operands (numeral k) stride ms r
     = r # emit_binary_operands (pred_numeral k) stride ms (emit_binary_next stride ms r)"
  by (simp add: numeral_eq_Suc)

text \<open>
  C2.  When the feature checks and the access check pass, \<open>do_vfp_3op_sp\<close> emits what
  the specification describes: the operation once if the vector length is zero or the
  destination is in a scalar bank (bits 3 and 4 of its number are zero), and
  \<open>vec_len + 1\<close> times otherwise, each time with destination and first source advanced
  by \<open>vec_stride + 1\<close> from their previous values, and the second source advanced by the
  same amount unless it is in a scalar bank, when it is loaded once and reused.
\<close>

theorem do_vfp_3op_sp_short_vector:
  assumes "dc_isar_feature Aa32_fpsp_v2 s"
      and "dc_isar_feature Aa32_fpshvec s \<or> (vec_len s = 0 \<and> vec_stride s = 0)"
      and "vec_stride s \<le> 3"
      and "vfp_access_check s = Some (True, s1)"
  shows "do_vfp_3op_sp s fn vd vn vm reads_vd
           = Some (True, emit_binary_sp fn reads_vd (vec_len s) (vec_stride s) vd vn vm s1)"
proof -
  have nz: "(of_nat (vec_stride s) + 1 :: u32) \<noteq> 0"
    using assms(3) by (rule stride_delta_nonzero)
  have stride: "vec_stride s1 = vec_stride s"
    using assms(4) by (simp add: vfp_access_check_def full_vfp_access_check_frame)
  show ?thesis
  proof (cases "vec_len s = 0 \<or> vfp_sreg_is_scalar vd")
    case True
    then show ?thesis
      using assms(1,2,4)
      by (auto simp add: do_vfp_3op_sp_def emit_binary_sp_def emit_binary_count_def Let_def
               split_def vfp_3op_sp_body_def emit_binary_apply_def)
  next
    case False
    then obtain k where k: "vec_len s = Suc k"
      by (cases "vec_len s") auto
    define dd :: u32 where "dd = of_nat (vec_stride s) + 1"
    have mixed: "vfp_3op_sp_loop fn rv dd 0 f0 f1 fd fpst n d0 n0 m0 t
         = foldl (\<lambda>s r. emit_binary_apply fn rv f0 f1 fd fpst r (emit_binary_reload True f0 f1 r s))
             (emit_binary_apply fn rv f0 f1 fd fpst (d0, n0, m0) t)
             (emit_binary_operands n (vec_stride s) True
                (emit_binary_next (vec_stride s) True (d0, n0, m0)))"
      for rv f0 f1 fd fpst n d0 n0 m0 t
      using vfp_3op_sp_loop_refines [OF nz, where ms = True] by (simp add: dd_def)
    have vector: "vfp_3op_sp_loop fn rv dd dd f0 f1 fd fpst n d0 n0 m0 t
         = foldl (\<lambda>s r. emit_binary_apply fn rv f0 f1 fd fpst r (emit_binary_reload False f0 f1 r s))
             (emit_binary_apply fn rv f0 f1 fd fpst (d0, n0, m0) t)
             (emit_binary_operands n (vec_stride s) False
                (emit_binary_next (vec_stride s) False (d0, n0, m0)))"
      for rv f0 f1 fd fpst n d0 n0 m0 t
      using vfp_3op_sp_loop_refines [OF nz, where ms = False] by (simp add: dd_def)
    show ?thesis
      using assms(1,2,4) stride False k
      by (simp add: do_vfp_3op_sp_def emit_binary_sp_def emit_binary_count_def Let_def
               split_def mixed vector dd_def [symmetric] del: vfp_3op_sp_loop.simps)
  qed
qed


theorem do_vfp_3op_sp_short_vector_witness:
  "dc_isar_feature Aa32_fpsp_v2 (ctx0\<lparr>vec_len := 3\<rparr>)
   \<and> (dc_isar_feature Aa32_fpshvec (ctx0\<lparr>vec_len := 3\<rparr>)
        \<or> (vec_len (ctx0\<lparr>vec_len := 3\<rparr>) = 0 \<and> vec_stride (ctx0\<lparr>vec_len := 3\<rparr>) = 0))
   \<and> vec_stride (ctx0\<lparr>vec_len := 3\<rparr>) \<le> 3
   \<and> vfp_access_check (ctx0\<lparr>vec_len := 3\<rparr>) = Some (True, ctx0\<lparr>vec_len := 3\<rparr>)
   \<and> map_option (\<lambda>(b, s). (b, ops (tcg_ctx s)))
         (do_vfp_3op_sp (ctx0\<lparr>vec_len := 3\<rparr>) gen_helper_vfp_adds 8 16 0 False)
       = Some (True, [Fpstatus_ptr 3 FPST_FPCR, Vfp_load_reg32 0 16, Vfp_load_reg32 1 0,
                      Gen_helper H_vfp_adds [2, 0, 1, 3], Vfp_store_reg32 2 8,
                      Vfp_load_reg32 0 17,
                      Gen_helper H_vfp_adds [2, 0, 1, 3], Vfp_store_reg32 2 9,
                      Vfp_load_reg32 0 18,
                      Gen_helper H_vfp_adds [2, 0, 1, 3], Vfp_store_reg32 2 10,
                      Vfp_load_reg32 0 19,
                      Gen_helper H_vfp_adds [2, 0, 1, 3], Vfp_store_reg32 2 11,
                      Temp_free 0, Temp_free 1, Temp_free 2, Temp_free 3])"
proof -
  let ?c = "ctx0\<lparr>vec_len := 3\<rparr>"
  have h1: "dc_isar_feature Aa32_fpsp_v2 ?c"
    by (simp add: ctx0_def dc_isar_feature_def)
  have h2: "dc_isar_feature Aa32_fpshvec ?c \<or> (vec_len ?c = 0 \<and> vec_stride ?c = 0)"
    by (simp add: ctx0_def dc_isar_feature_def)
  have h3: "vec_stride ?c \<le> 3"
    by (simp add: ctx0_def)
  have h4: "vfp_access_check ?c = Some (True, ?c)"
    by (simp add: ctx0_def vfp_access_check_def full_vfp_access_check_def arm_dc_feature_def)
  have run: "do_vfp_3op_sp ?c gen_helper_vfp_adds 8 16 0 False
               = Some (True, emit_binary_sp gen_helper_vfp_adds False (vec_len ?c) (vec_stride ?c)
                               8 16 0 ?c)"
    by (rule do_vfp_3op_sp_short_vector [OF h1 h2 h3 h4])
  show ?thesis
    unfolding run using h1 h2 h3 h4
    by (simp add: ctx0_def emit_binary_sp_def emit_binary_count_def emit_binary_next_def
          emit_binary_apply_def emit_binary_reload_def gen_helper_vfp_adds_def
          vfp_sreg_is_scalar_def vfp_advance_sreg_def vfp_load_reg32_def vfp_store_reg32_def
          call_fn_def prim_defs Let_def emit_binary_operands_numeral)
qed

section \<open>Fused multiply-add\<close>

lemmas trans_vfm_defs =
  trans_VFMA_hp_def trans_VFMS_hp_def trans_VFNMA_hp_def trans_VFNMS_hp_def trans_VFMA_sp_def trans_VFMS_sp_def trans_VFNMA_sp_def trans_VFNMS_sp_def trans_VFMA_dp_def trans_VFMS_dp_def trans_VFNMA_dp_def trans_VFNMS_dp_def

lemma access_check_passes:
  assumes "vfp_access_check s = Some (True, s1)"
  shows "vec_len s1 = vec_len s" and "vec_stride s1 = vec_stride s" and "isar s1 = isar s"
  using assms by (simp_all add: vfp_access_check_def full_vfp_access_check_frame)

text \<open>
  C3.  For each of VFMA, VFMS, VFNMA, VFNMS in half, single and double precision, when
  the instruction is legal and the access check passes, the handler appends exactly the
  sequence \<open>fused_sequence\<close> to what the access check emitted, and then releases its
  temporaries: the operands are loaded, VFMS and VFNMS negate the first multiplicand and
  VFNMA and VFNMS negate the accumulator in separate helper calls, and the fused helper
  multiplies the temporaries of \<open>vn\<close> and \<open>vm\<close> and adds the temporary of \<open>vd\<close>.
\<close>

theorem vfm_emits_fused_sequence:
  assumes "vfm_legal p s a"
      and "vfp_access_check s = Some (True, s1)"
  shows "\<exists>s'. trans_vfm i p s a = Some (True, s')
           \<and> ops (tcg_ctx s') =
               ops (tcg_ctx s1)
               @ fused_sequence i p (nb_temps (tcg_ctx s1)) (nb_temps (tcg_ctx s1) + 1)
                   (nb_temps (tcg_ctx s1) + 2) (nb_temps (tcg_ctx s1) + 3)
                   (of_nat (a_vn a)) (of_nat (a_vm a)) (of_nat (a_vd a))
               @ [Temp_free (nb_temps (tcg_ctx s1) + 3), Temp_free (nb_temps (tcg_ctx s1)),
                  Temp_free (nb_temps (tcg_ctx s1) + 1), Temp_free (nb_temps (tcg_ctx s1) + 2)]"
  using assms
  by (cases i; cases p)
     (simp_all add: vfm_legal_def trans_vfm_defs do_vfm_hp_def do_vfm_sp_def do_vfm_dp_def
        fused_sequence_def negates_multiplicand_def negates_accumulator_def load_op_def
        store_op_def negate_op_def fused_op_def vfm_fpst_def vfp_load_reg32_def
        vfp_store_reg32_def vfp_load_reg64_def vfp_store_reg64_def prim_defs Let_def split_def)

theorem vfm_emits_fused_sequence_witness:
  "vfm_legal SP ctx_v4 \<lparr>a_vd = 2, a_vm = 1, a_vn = 0\<rparr>
   \<and> vfp_access_check ctx_v4 = Some (True, ctx_v4)
   \<and> (\<exists>s'. trans_vfm VFNMS SP ctx_v4 \<lparr>a_vd = 2, a_vm = 1, a_vn = 0\<rparr> = Some (True, s')
          \<and> ops (tcg_ctx s') =
               [Vfp_load_reg32 0 0, Vfp_load_reg32 1 1, Gen_helper H_vfp_negs [0, 0],
                Vfp_load_reg32 2 2, Gen_helper H_vfp_negs [2, 2],
                Fpstatus_ptr 3 FPST_FPCR, Gen_helper H_vfp_muladds [2, 0, 1, 2, 3],
                Vfp_store_reg32 2 2,
                Temp_free 3, Temp_free 0, Temp_free 1, Temp_free 2])"
proof -
  have h1: "vfm_legal SP ctx_v4 \<lparr>a_vd = 2, a_vm = 1, a_vn = 0\<rparr>"
    by (simp add: vfm_legal_def ctx_v4_def dc_isar_feature_def)
  have h2: "vfp_access_check ctx_v4 = Some (True, ctx_v4)"
    by (simp add: ctx_v4_def vfp_access_check_def full_vfp_access_check_def arm_dc_feature_def)
  from vfm_emits_fused_sequence [OF h1 h2, of VFNMS]
  obtain s' where run: "trans_vfm VFNMS SP ctx_v4 \<lparr>a_vd = 2, a_vm = 1, a_vn = 0\<rparr> = Some (True, s')"
    and emitted: "ops (tcg_ctx s') =
               ops (tcg_ctx ctx_v4)
               @ fused_sequence VFNMS SP (nb_temps (tcg_ctx ctx_v4)) (nb_temps (tcg_ctx ctx_v4) + 1)
                   (nb_temps (tcg_ctx ctx_v4) + 2) (nb_temps (tcg_ctx ctx_v4) + 3)
                   (of_nat (a_vn \<lparr>a_vd = 2, a_vm = 1, a_vn = 0\<rparr>))
                   (of_nat (a_vm \<lparr>a_vd = 2, a_vm = 1, a_vn = 0\<rparr>))
                   (of_nat (a_vd \<lparr>a_vd = 2, a_vm = 1, a_vn = 0\<rparr>))
               @ [Temp_free (nb_temps (tcg_ctx ctx_v4) + 3), Temp_free (nb_temps (tcg_ctx ctx_v4)),
                  Temp_free (nb_temps (tcg_ctx ctx_v4) + 1), Temp_free (nb_temps (tcg_ctx ctx_v4) + 2)]"
    by blast
  have "ops (tcg_ctx s') =
               [Vfp_load_reg32 0 0, Vfp_load_reg32 1 1, Gen_helper H_vfp_negs [0, 0],
                Vfp_load_reg32 2 2, Gen_helper H_vfp_negs [2, 2],
                Fpstatus_ptr 3 FPST_FPCR, Gen_helper H_vfp_muladds [2, 0, 1, 2, 3],
                Vfp_store_reg32 2 2,
                Temp_free 3, Temp_free 0, Temp_free 1, Temp_free 2]"
    unfolding emitted
    by (simp add: ctx_v4_def fused_sequence_def negates_multiplicand_def
          negates_accumulator_def load_op_def store_op_def negate_op_def fused_op_def
          vfm_fpst_def)
  with run h1 h2 show ?thesis by blast
qed

section \<open>Moves to and from system registers\<close>

lemma full_vfp_access_check_not_M:
  assumes "\<not> arm_dc_feature s ARM_FEATURE_M"
      and "full_vfp_access_check s ign = Some (True, s1)"
  shows "s1 = s"
  using assms by (auto simp add: full_vfp_access_check_def split: if_splits)

text \<open>
  C10.  Not on M-profile, a VMSR (\<open>l\<close> clear) to FPSID, MVFR0, MVFR1 or MVFR2 that passes
  the decode checks of its register and the access check returns \<open>true\<close> with the context
  it was given: the op buffer is the same, so nothing is emitted, and running what was
  emitted leaves the machine as it is.
\<close>

theorem vmsr_id_register_write_ignored:
  assumes "\<not> arm_dc_feature s ARM_FEATURE_M"
      and "\<not> vmsr_l a"
      and "vmsr_reg a = ARM_VFP_FPSID \<or> vmsr_reg a = ARM_VFP_MVFR0
           \<or> vmsr_reg a = ARM_VFP_MVFR1 \<or> vmsr_reg a = ARM_VFP_MVFR2"
      and "dc_isar_feature Aa32_fpsp_v2 s"
      and "vmsr_vmrs_decode s (vmsr_reg a) = Some ign"
      and "full_vfp_access_check s ign = Some (True, s1)"
  shows "trans_VMSR_VMRS s a = Some (True, a, s)
         \<and> emitted s s = []
         \<and> exec H (emitted s s) None m = Done m"
proof -
  have same: "s1 = s"
    using assms(1,6) by (rule full_vfp_access_check_not_M)
  have "trans_VMSR_VMRS s a = Some (True, a, s)"
    using assms same by (auto simp add: trans_VMSR_VMRS_def trans_VMSR_write_def)
  then show ?thesis by (simp add: emitted_def)
qed

theorem vmsr_id_register_write_ignored_witness:
  "\<not> arm_dc_feature ctx_v4 ARM_FEATURE_M
   \<and> \<not> vmsr_l \<lparr>vmsr_l = False, vmsr_reg = ARM_VFP_MVFR2, vmsr_rt = 3\<rparr>
   \<and> dc_isar_feature Aa32_fpsp_v2 ctx_v4
   \<and> vmsr_vmrs_decode ctx_v4 ARM_VFP_MVFR2 = Some True
   \<and> full_vfp_access_check ctx_v4 True = Some (True, ctx_v4)
   \<and> trans_VMSR_VMRS ctx_v4 \<lparr>vmsr_l = False, vmsr_reg = ARM_VFP_MVFR2, vmsr_rt = 3\<rparr>
       = Some (True, \<lparr>vmsr_l = False, vmsr_reg = ARM_VFP_MVFR2, vmsr_rt = 3\<rparr>, ctx_v4)
   \<and> exec quiet_helpers (emitted ctx_v4 ctx_v4) None machine0 = Done machine0"
proof -
  let ?a = "\<lparr>vmsr_l = False, vmsr_reg = ARM_VFP_MVFR2, vmsr_rt = 3\<rparr>"
  have h1: "\<not> arm_dc_feature ctx_v4 ARM_FEATURE_M"
    by (simp add: ctx_v4_def arm_dc_feature_def)
  have h2: "\<not> vmsr_l ?a" by simp
  have h3: "vmsr_reg ?a = ARM_VFP_FPSID \<or> vmsr_reg ?a = ARM_VFP_MVFR0
            \<or> vmsr_reg ?a = ARM_VFP_MVFR1 \<or> vmsr_reg ?a = ARM_VFP_MVFR2" by simp
  have h4: "dc_isar_feature Aa32_fpsp_v2 ctx_v4"
    by (simp add: ctx_v4_def dc_isar_feature_def)
  have h5: "vmsr_vmrs_decode ctx_v4 (vmsr_reg ?a) = Some True"
    by (simp add: vmsr_vmrs_decode_def ctx_v4_def arm_dc_feature_def vfp_regno_defs)
  have h6: "full_vfp_access_check ctx_v4 True = Some (True, ctx_v4)"
    by (simp add: full_vfp_access_check_def ctx_v4_def arm_dc_feature_def)
  from vmsr_id_register_write_ignored [OF h1 h2 h3 h4 h5 h6, of quiet_helpers machine0]
  show ?thesis using h1 h4 h5 h6 by simp
qed

section \<open>Argument records\<close>




section \<open>Running emitted code\<close>

lemmas exec_defs =
  helper_step_def fp_helper32_def fp_helper64_def env_helper_def set_t32_def set_t64_def
  tcg_cond_holds_def

lemmas vfp_reg_defs =
  vfp_load_reg32_def vfp_store_reg32_def vfp_load_reg64_def vfp_store_reg64_def

lemma write_sreg_frame [simp]:
  "regs (write_sreg r v c) = regs c"
  "nzcv (write_sreg r v c) = nzcv c"
  "cpu_fields (write_sreg r v c) = cpu_fields c"
  "rmode (write_sreg r v c) = rmode c"
  "fpflags (write_sreg r v c) = fpflags c"
  "mem (write_sreg r v c) = mem c"
  by (simp_all add: write_sreg_def Let_def)

lemma write_mem64_frame [simp]:
  "regs (write_mem64 a v c) = regs c"
  "nzcv (write_mem64 a v c) = nzcv c"
  "cpu_fields (write_mem64 a v c) = cpu_fields c"
  "rmode (write_mem64 a v c) = rmode c"
  "fpflags (write_mem64 a v c) = fpflags c"
  "vfp_regs (write_mem64 a v c) = vfp_regs c"
  by (simp_all add: write_mem64_def)

lemma exec_append:
  "exec H xs j m = Done m' \<Longrightarrow> exec H (xs @ ys) j m = exec H ys None m'"
proof (induction xs arbitrary: j m)
  case Nil
  then show ?case by (cases j) simp_all
next
  case (Cons x xs)
  show ?case
  proof (cases j)
    case None
    with Cons show ?thesis
      by (cases "step H x m") (simp_all split: if_splits)
  next
    case (Some l)
    with Cons show ?thesis
      by (simp split: if_splits)
  qed
qed

section \<open>Rounding-mode save and restore\<close>









section \<open>Multi-register block transfer\<close>

lemma emit_ops: "emit x s = s\<lparr>tcg_ctx := (tcg_ctx s)\<lparr>ops := ops (tcg_ctx s) @ [x]\<rparr>\<rparr>"
  by (simp add: emit_def tcg_emit_def)

lemma emit_list:
  "s\<lparr>tcg_ctx := (tcg_ctx s)\<lparr>ops := ops (tcg_ctx s) @ []\<rparr>\<rparr> = s"
  by simp

lemma vldm_vstm_sp_step_ops_eq:
  "vldm_vstm_sp_step a addr tmp offset s i
     = s\<lparr>tcg_ctx := (tcg_ctx s)\<lparr>ops := ops (tcg_ctx s)
                        @ vldm_vstm_sp_step_ops a addr tmp offset i\<rparr>\<rparr>"
  by (simp add: vldm_vstm_sp_step_def vldm_vstm_sp_step_ops_def vfp_reg_defs emit_ops Let_def)

lemma vldm_vstm_sp_loop_ops:
  "foldl (vldm_vstm_sp_step a addr tmp offset) s xs
     = s\<lparr>tcg_ctx := (tcg_ctx s)\<lparr>ops := ops (tcg_ctx s)
                        @ concat (map (vldm_vstm_sp_step_ops a addr tmp offset) xs)\<rparr>\<rparr>"
proof (induction xs arbitrary: s)
  case Nil
  show ?case by simp
next
  case (Cons x xs)
  let ?f = "vldm_vstm_sp_step a addr tmp offset"
  let ?g = "vldm_vstm_sp_step_ops a addr tmp offset"
  have "foldl ?f s (x # xs) = foldl ?f (?f s x) xs"
    by simp
  also have "\<dots> = (?f s x)\<lparr>tcg_ctx := (tcg_ctx (?f s x))\<lparr>ops := ops (tcg_ctx (?f s x))
                        @ concat (map ?g xs)\<rparr>\<rparr>"
    by (rule Cons.IH)
  also have "\<dots> = s\<lparr>tcg_ctx := (tcg_ctx s)\<lparr>ops := ops (tcg_ctx s)
                        @ concat (map ?g (x # xs))\<rparr>\<rparr>"
    by (simp add: vldm_vstm_sp_step_ops_eq)
  finally show ?case .
qed

lemma vldm_vstm_dp_step_ops_eq:
  "vldm_vstm_dp_step a addr tmp offset s i
     = s\<lparr>tcg_ctx := (tcg_ctx s)\<lparr>ops := ops (tcg_ctx s)
                        @ vldm_vstm_dp_step_ops a addr tmp offset i\<rparr>\<rparr>"
  by (simp add: vldm_vstm_dp_step_def vldm_vstm_dp_step_ops_def vfp_reg_defs emit_ops Let_def)

lemma vldm_vstm_dp_loop_ops:
  "foldl (vldm_vstm_dp_step a addr tmp offset) s xs
     = s\<lparr>tcg_ctx := (tcg_ctx s)\<lparr>ops := ops (tcg_ctx s)
                        @ concat (map (vldm_vstm_dp_step_ops a addr tmp offset) xs)\<rparr>\<rparr>"
proof (induction xs arbitrary: s)
  case Nil
  show ?case by simp
next
  case (Cons x xs)
  let ?f = "vldm_vstm_dp_step a addr tmp offset"
  let ?g = "vldm_vstm_dp_step_ops a addr tmp offset"
  have "foldl ?f s (x # xs) = foldl ?f (?f s x) xs"
    by simp
  also have "\<dots> = (?f s x)\<lparr>tcg_ctx := (tcg_ctx (?f s x))\<lparr>ops := ops (tcg_ctx (?f s x))
                        @ concat (map ?g xs)\<rparr>\<rparr>"
    by (rule Cons.IH)
  also have "\<dots> = s\<lparr>tcg_ctx := (tcg_ctx s)\<lparr>ops := ops (tcg_ctx s)
                        @ concat (map ?g (x # xs))\<rparr>\<rparr>"
    by (simp add: vldm_vstm_dp_step_ops_eq)
  finally show ?case .
qed

text \<open>
  Without faults the transfer loop runs to its end; it moves the address temporary
  forward by one unit per register and leaves the general registers alone.
\<close>

lemma exec_sp_loop:
  assumes "\<forall>mo a. \<not> mem_fault H mo a" and "addr \<noteq> tmp"
  shows "\<exists>m'. exec H (concat (map (vldm_vstm_sp_step_ops a addr tmp offset) xs)) None m = Done m'
              \<and> t32 m' addr = t32 m addr + offset * of_nat (length xs)
              \<and> regs (cpu m') = regs (cpu m)"
proof (induction xs arbitrary: m)
  case Nil
  show ?case by simp
next
  case (Cons x xs)
  let ?m1 = "if vldm_l a
             then set_t32 addr (t32 m addr + offset)
                    ((set_t32 tmp (mem (cpu m) (t32 m addr)) m)
                       \<lparr>cpu := write_sreg (of_nat (vldm_vd a + x)) (mem (cpu m) (t32 m addr)) (cpu m)\<rparr>)
             else set_t32 addr (t32 m addr + offset)
                    ((set_t32 tmp (read_sreg (cpu m) (of_nat (vldm_vd a + x))) m)
                       \<lparr>cpu := (cpu m)\<lparr>mem := (mem (cpu m))
                                 (t32 m addr := read_sreg (cpu m) (of_nat (vldm_vd a + x)))\<rparr>\<rparr>)"
  have one: "exec H (vldm_vstm_sp_step_ops a addr tmp offset x @ rest) None m
               = exec H rest None ?m1" for rest
    using assms by (simp add: vldm_vstm_sp_step_ops_def set_t32_def)
  have addr1: "t32 ?m1 addr = t32 m addr + offset" and regs1: "regs (cpu ?m1) = regs (cpu m)"
    by (simp_all add: set_t32_def)
  from Cons.IH [of ?m1] obtain m' where
    run: "exec H (concat (map (vldm_vstm_sp_step_ops a addr tmp offset) xs)) None ?m1 = Done m'"
    and a': "t32 m' addr = t32 ?m1 addr + offset * of_nat (length xs)"
    and r': "regs (cpu m') = regs (cpu ?m1)"
    by blast
  have "exec H (concat (map (vldm_vstm_sp_step_ops a addr tmp offset) (x # xs))) None m = Done m'"
    using one run by simp
  moreover have "t32 m' addr = t32 m addr + offset * of_nat (length (x # xs))"
    using a' addr1 by (simp add: algebra_simps)
  moreover have "regs (cpu m') = regs (cpu m)"
    using r' regs1 by simp
  ultimately show ?case by blast
qed

lemma exec_dp_loop:
  assumes "\<forall>mo a. \<not> mem_fault H mo a" and "addr \<noteq> tmp"
  shows "\<exists>m'. exec H (concat (map (vldm_vstm_dp_step_ops a addr tmp offset) xs)) None m = Done m'
              \<and> t32 m' addr = t32 m addr + offset * of_nat (length xs)
              \<and> regs (cpu m') = regs (cpu m)"
proof (induction xs arbitrary: m)
  case Nil
  show ?case by simp
next
  case (Cons x xs)
  let ?m1 = "if vldm_l a
             then set_t32 addr (t32 m addr + offset)
                    ((set_t64 tmp (read_mem64 (cpu m) (t32 m addr)) m)
                       \<lparr>cpu := (cpu m)\<lparr>vfp_regs := (vfp_regs (cpu m))
                                 (unat (of_nat (vldm_vd a + x) :: u32) := read_mem64 (cpu m) (t32 m addr))\<rparr>\<rparr>)
             else set_t32 addr (t32 m addr + offset)
                    ((set_t64 tmp (vfp_regs (cpu m) (unat (of_nat (vldm_vd a + x) :: u32))) m)
                       \<lparr>cpu := write_mem64 (t32 m addr)
                                 (vfp_regs (cpu m) (unat (of_nat (vldm_vd a + x) :: u32))) (cpu m)\<rparr>)"
  have one: "exec H (vldm_vstm_dp_step_ops a addr tmp offset x @ rest) None m
               = exec H rest None ?m1" for rest
    using assms by (simp add: vldm_vstm_dp_step_ops_def set_t32_def set_t64_def)
  have addr1: "t32 ?m1 addr = t32 m addr + offset" and regs1: "regs (cpu ?m1) = regs (cpu m)"
    by (simp_all add: set_t32_def set_t64_def)
  from Cons.IH [of ?m1] obtain m' where
    run: "exec H (concat (map (vldm_vstm_dp_step_ops a addr tmp offset) xs)) None ?m1 = Done m'"
    and a': "t32 m' addr = t32 ?m1 addr + offset * of_nat (length xs)"
    and r': "regs (cpu m') = regs (cpu ?m1)"
    by blast
  have "exec H (concat (map (vldm_vstm_dp_step_ops a addr tmp offset) (x # xs))) None m = Done m'"
    using one run by simp
  moreover have "t32 m' addr = t32 m addr + offset * of_nat (length (x # xs))"
    using a' addr1 by (simp add: algebra_simps)
  moreover have "regs (cpu m') = regs (cpu m)"
    using r' regs1 by simp
  ultimately show ?case by blast
qed

lemma no_faults_stackcheck:
  "no_faults H \<Longrightarrow> helper_step H H_v8m_stackcheck [t] m = Next m"
  by (simp add: no_faults_def helper_step_def env_helper_def)

lemma vldm_vstm_sp_writeback:
  assumes acc: "vfp_access_check s = Some (True, s1)"
      and run: "trans_VLDM_VSTM_sp s a = Some (True, s')"
      and pw: "vldm_p a" "vldm_w a"
      and nf: "no_faults H"
  shows "\<exists>m'. exec H (emitted s1 s') None m = Done m'
              \<and> regs (cpu m') (vldm_rn a) = regs (cpu m) (vldm_rn a) - 4 * of_nat (vldm_imm a)"
proof -
  define addr where "addr = nb_temps (tcg_ctx s1)"
  define tmp where "tmp = Suc addr"
  define pre where "pre = [Add_reg_for_lit addr (vldm_rn a) 0,
                            Addi_i32 addr addr (- (push_bit 2 (of_nat (vldm_imm a))))]
                          @ (if v8m_stackcheck s1 \<and> vldm_rn a = 13
                             then [Gen_helper H_v8m_stackcheck [addr]] else [])"
  define loop where "loop = concat (map (vldm_vstm_sp_step_ops a addr tmp 4) [0..<vldm_imm a])"
  define post where "post = [Temp_free tmp, Addi_i32 addr addr (- 4 * of_nat (vldm_imm a)),
                             Store_reg (vldm_rn a) addr]"
  have rn: "vldm_rn a \<noteq> 15"
    using run pw by (auto simp add: trans_VLDM_VSTM_sp_def Let_def split: if_splits)
  have em: "emitted s1 s' = pre @ loop @ post"
    using acc run pw
    by (auto simp add: trans_VLDM_VSTM_sp_def vldm_vstm_sp_loop_ops emitted_def prim_defs
          Let_def split_def pre_def loop_def post_def addr_def tmp_def split: if_splits)
  have mf: "\<forall>mo a. \<not> mem_fault H mo a"
    using nf by (simp add: no_faults_def)
  define m1 where "m1 = set_t32 addr (regs (cpu m) (vldm_rn a) - 4 * of_nat (vldm_imm a)) m"
  have pre1: "exec H pre None m = Done m1"
    using rn nf
    by (cases "v8m_stackcheck s1 \<and> vldm_rn a = 13")
       (auto simp add: pre_def m1_def no_faults_stackcheck set_t32_def push_bit_eq_mult
          mult.commute)
  have addr1: "t32 m1 addr = regs (cpu m) (vldm_rn a) - 4 * of_nat (vldm_imm a)"
    and regs1: "regs (cpu m1) = regs (cpu m)"
    by (simp_all add: m1_def set_t32_def)
  from exec_sp_loop [OF mf, of addr tmp a 4 "[0..<vldm_imm a]" m1]
  obtain m2 where loop2: "exec H loop None m1 = Done m2"
    and addr2: "t32 m2 addr = t32 m1 addr + 4 * of_nat (vldm_imm a)"
    and regs2: "regs (cpu m2) = regs (cpu m1)"
    by (auto simp add: loop_def tmp_def)
  have "\<exists>m3. exec H post None m2 = Done m3
              \<and> regs (cpu m3) (vldm_rn a) = t32 m2 addr - 4 * of_nat (vldm_imm a)"
    by (simp add: post_def set_t32_def)
  then obtain m3 where post3: "exec H post None m2 = Done m3"
    and regs3: "regs (cpu m3) (vldm_rn a) = t32 m2 addr - 4 * of_nat (vldm_imm a)"
    by blast
  have "exec H (emitted s1 s') None m = Done m3"
    unfolding em using pre1 loop2 post3 by (simp add: exec_append)
  moreover have "regs (cpu m3) (vldm_rn a) = regs (cpu m) (vldm_rn a) - 4 * of_nat (vldm_imm a)"
    using regs3 addr2 addr1 by simp
  ultimately show ?thesis by blast
qed

lemma vldm_vstm_dp_writeback:
  assumes acc: "vfp_access_check s = Some (True, s1)"
      and run: "trans_VLDM_VSTM_dp s a = Some (True, s')"
      and pw: "vldm_p a" "vldm_w a"
      and nf: "no_faults H"
  shows "\<exists>m'. exec H (emitted s1 s') None m = Done m'
              \<and> regs (cpu m') (vldm_rn a) = regs (cpu m) (vldm_rn a) - 4 * of_nat (vldm_imm a)"
proof -
  define n where "n = vldm_imm a div 2"
  define addr where "addr = nb_temps (tcg_ctx s1)"
  define tmp where "tmp = Suc addr"
  define pre where "pre = [Add_reg_for_lit addr (vldm_rn a) 0,
                            Addi_i32 addr addr (- (push_bit 2 (of_nat (vldm_imm a))))]
                          @ (if v8m_stackcheck s1 \<and> vldm_rn a = 13
                             then [Gen_helper H_v8m_stackcheck [addr]] else [])"
  define loop where "loop = concat (map (vldm_vstm_dp_step_ops a addr tmp 8) [0..<n])"
  define post where "post = [Temp_free tmp]
                            @ (if (- 8 * of_nat n :: u32) \<noteq> 0
                               then [Addi_i32 addr addr (- 8 * of_nat n)] else [])
                            @ [Store_reg (vldm_rn a) addr]"
  have rn: "vldm_rn a \<noteq> 15"
    using run pw by (auto simp add: trans_VLDM_VSTM_dp_def Let_def split: if_splits)
  have em: "emitted s1 s' = pre @ loop @ post"
    using acc run pw
    by (auto simp add: trans_VLDM_VSTM_dp_def vldm_vstm_dp_loop_ops emitted_def prim_defs
          Let_def split_def pre_def loop_def post_def addr_def tmp_def n_def split: if_splits)
  have mf: "\<forall>mo a. \<not> mem_fault H mo a"
    using nf by (simp add: no_faults_def)
  define m1 where "m1 = set_t32 addr (regs (cpu m) (vldm_rn a) - 4 * of_nat (vldm_imm a)) m"
  have pre1: "exec H pre None m = Done m1"
    using rn nf
    by (cases "v8m_stackcheck s1 \<and> vldm_rn a = 13")
       (auto simp add: pre_def m1_def no_faults_stackcheck set_t32_def push_bit_eq_mult
          mult.commute)
  have addr1: "t32 m1 addr = regs (cpu m) (vldm_rn a) - 4 * of_nat (vldm_imm a)"
    and regs1: "regs (cpu m1) = regs (cpu m)"
    by (simp_all add: m1_def set_t32_def)
  from exec_dp_loop [OF mf, of addr tmp a 8 "[0..<n]" m1]
  obtain m2 where loop2: "exec H loop None m1 = Done m2"
    and addr2: "t32 m2 addr = t32 m1 addr + 8 * of_nat n"
    and regs2: "regs (cpu m2) = regs (cpu m1)"
    by (auto simp add: loop_def tmp_def)
  have "\<exists>m3. exec H post None m2 = Done m3
              \<and> regs (cpu m3) (vldm_rn a) = t32 m2 addr - 8 * of_nat n"
    by (cases "(- 8 * of_nat n :: u32) \<noteq> 0") (simp_all add: post_def set_t32_def)
  then obtain m3 where post3: "exec H post None m2 = Done m3"
    and regs3: "regs (cpu m3) (vldm_rn a) = t32 m2 addr - 8 * of_nat n"
    by blast
  have "exec H (emitted s1 s') None m = Done m3"
    unfolding em using pre1 loop2 post3 by (simp add: exec_append)
  moreover have "regs (cpu m3) (vldm_rn a) = regs (cpu m) (vldm_rn a) - 4 * of_nat (vldm_imm a)"
    using regs3 addr2 addr1 by simp
  ultimately show ?thesis by blast
qed

lemma even_imm_units: "even i \<Longrightarrow> (4 * of_nat i :: u32) = 8 * of_nat (i div 2)"
proof -
  assume "even i"
  then obtain k where "i = 2 * k" by (auto elim: evenE)
  then show ?thesis by simp
qed

text \<open>
  C7, as the claim states it, fails for double precision: with an odd immediate (the
  FLDMX/FSTMX form) the base written back is four bytes lower than \<open>base - 8 * count\<close>.
  A pre-decrement store with write-back of one double register, immediate 3, base
  \<open>r0 = 0x2000\<close> writes back \<open>0x1ff4\<close>, not \<open>0x2000 - 8 * 1 = 0x1ff8\<close>.
\<close>

theorem vstmdb_dp_odd_immediate_writeback:
  "final_reg quiet_helpers ctx0
     (trans_VLDM_VSTM_dp ctx0
        \<lparr>vldm_l = False, vldm_rn = 0, vldm_vd = 0, vldm_imm = 3, vldm_p = True, vldm_w = True\<rparr>)
     machine0 0 = Some 0x1ff4
   \<and> Some (0x1ff4 :: u32) \<noteq> Some (regs (cpu machine0) 0 - 8 * of_nat (3 div 2))"
  by (simp add: final_reg_def trans_VLDM_VSTM_dp_def vfp_access_check_def
        full_vfp_access_check_def ctx0_def dc_isar_feature_def arm_dc_feature_def
        vldm_vstm_dp_step_def vfp_reg_defs emitted_def prim_defs exec_defs quiet_helpers_def
        machine0_def write_mem64_def Let_def split_def)

text \<open>
  C7, amended.  Both block-transfer handlers return \<open>false\<close> and leave the context as it is
  (nothing is emitted) when the register count is zero, when the registers would run past
  the top of the bank (\<open>vd + count > 32\<close>), and when write-back is asked for with the
  program counter as base; the count is the immediate for single precision and half the
  immediate for double precision.  When the access check passes and the handler reports
  the instruction as handled, with pre-decrement and write-back, the emitted code, run
  without faults, writes back \<open>base - 4 * imm\<close>: this is \<open>base - 4 * count\<close> for single
  precision and \<open>base - 8 * count\<close> for double precision with an even immediate.
\<close>

theorem block_transfer_checks_and_writeback:
  "(vldm_imm a = 0 \<or> 32 < vldm_vd a + vldm_imm a \<or> (vldm_rn a = 15 \<and> vldm_w a)
      \<longrightarrow> trans_VLDM_VSTM_sp s a = Some (False, s))
   \<and> (vldm_imm a div 2 = 0 \<or> 32 < vldm_vd a + vldm_imm a div 2
        \<or> (vldm_rn a = 15 \<and> vldm_w a)
      \<longrightarrow> trans_VLDM_VSTM_dp s a = Some (False, s))
   \<and> (vfp_access_check s = Some (True, s1) \<and> trans_VLDM_VSTM_sp s a = Some (True, s')
        \<and> vldm_p a \<and> vldm_w a \<and> no_faults H
      \<longrightarrow> (\<exists>m'. exec H (emitted s1 s') None m = Done m'
                 \<and> regs (cpu m') (vldm_rn a)
                     = regs (cpu m) (vldm_rn a) - 4 * of_nat (vldm_imm a)))
   \<and> (vfp_access_check s = Some (True, s1) \<and> trans_VLDM_VSTM_dp s a = Some (True, s')
        \<and> vldm_p a \<and> vldm_w a \<and> no_faults H
      \<longrightarrow> (\<exists>m'. exec H (emitted s1 s') None m = Done m'
                 \<and> regs (cpu m') (vldm_rn a)
                     = regs (cpu m) (vldm_rn a) - 4 * of_nat (vldm_imm a)
                 \<and> (even (vldm_imm a) \<longrightarrow>
                      regs (cpu m') (vldm_rn a)
                        = regs (cpu m) (vldm_rn a) - 8 * of_nat (vldm_imm a div 2))))"
proof (intro conjI impI)
  assume "vldm_imm a = 0 \<or> 32 < vldm_vd a + vldm_imm a \<or> (vldm_rn a = 15 \<and> vldm_w a)"
  then show "trans_VLDM_VSTM_sp s a = Some (False, s)"
    by (auto simp add: trans_VLDM_VSTM_sp_def Let_def)
next
  assume "vldm_imm a div 2 = 0 \<or> 32 < vldm_vd a + vldm_imm a div 2
          \<or> (vldm_rn a = 15 \<and> vldm_w a)"
  then show "trans_VLDM_VSTM_dp s a = Some (False, s)"
    by (auto simp add: trans_VLDM_VSTM_dp_def Let_def)
next
  assume "vfp_access_check s = Some (True, s1) \<and> trans_VLDM_VSTM_sp s a = Some (True, s')
          \<and> vldm_p a \<and> vldm_w a \<and> no_faults H"
  then show "\<exists>m'. exec H (emitted s1 s') None m = Done m'
                 \<and> regs (cpu m') (vldm_rn a)
                     = regs (cpu m) (vldm_rn a) - 4 * of_nat (vldm_imm a)"
    using vldm_vstm_sp_writeback by blast
next
  assume h: "vfp_access_check s = Some (True, s1) \<and> trans_VLDM_VSTM_dp s a = Some (True, s')
          \<and> vldm_p a \<and> vldm_w a \<and> no_faults H"
  then obtain m' where run: "exec H (emitted s1 s') None m = Done m'"
    and wb: "regs (cpu m') (vldm_rn a) = regs (cpu m) (vldm_rn a) - 4 * of_nat (vldm_imm a)"
    using vldm_vstm_dp_writeback by blast
  have "even (vldm_imm a) \<longrightarrow>
          regs (cpu m') (vldm_rn a) = regs (cpu m) (vldm_rn a) - 8 * of_nat (vldm_imm a div 2)"
    using wb by (simp add: even_imm_units)
  with run wb
  show "\<exists>m'. exec H (emitted s1 s') None m = Done m'
                 \<and> regs (cpu m') (vldm_rn a)
                     = regs (cpu m) (vldm_rn a) - 4 * of_nat (vldm_imm a)
                 \<and> (even (vldm_imm a) \<longrightarrow>
                      regs (cpu m') (vldm_rn a)
                        = regs (cpu m) (vldm_rn a) - 8 * of_nat (vldm_imm a div 2))"
    by blast
qed

theorem block_transfer_checks_and_writeback_witness:
  "trans_VLDM_VSTM_sp ctx0
     \<lparr>vldm_l = True, vldm_rn = 0, vldm_vd = 0, vldm_imm = 0, vldm_p = True, vldm_w = True\<rparr>
     = Some (False, ctx0)
   \<and> trans_VLDM_VSTM_dp ctx0
     \<lparr>vldm_l = True, vldm_rn = 0, vldm_vd = 0, vldm_imm = 1, vldm_p = True, vldm_w = True\<rparr>
     = Some (False, ctx0)
   \<and> vfp_access_check ctx0 = Some (True, ctx0)
   \<and> no_faults quiet_helpers
   \<and> final_reg quiet_helpers ctx0
       (trans_VLDM_VSTM_sp ctx0
          \<lparr>vldm_l = True, vldm_rn = 0, vldm_vd = 0, vldm_imm = 2, vldm_p = True, vldm_w = True\<rparr>)
       machine0 0 = Some 0x1ff8
   \<and> final_reg quiet_helpers ctx0
       (trans_VLDM_VSTM_dp ctx0
          \<lparr>vldm_l = False, vldm_rn = 0, vldm_vd = 4, vldm_imm = 4, vldm_p = True, vldm_w = True\<rparr>)
       machine0 0 = Some 0x1ff0"
proof -
  let ?z = "\<lparr>vldm_l = True, vldm_rn = 0, vldm_vd = 0, vldm_imm = 0, vldm_p = True, vldm_w = True\<rparr>"
  let ?o = "\<lparr>vldm_l = True, vldm_rn = 0, vldm_vd = 0, vldm_imm = 1, vldm_p = True, vldm_w = True\<rparr>"
  let ?a = "\<lparr>vldm_l = True, vldm_rn = 0, vldm_vd = 0, vldm_imm = 2, vldm_p = True, vldm_w = True\<rparr>"
  let ?b = "\<lparr>vldm_l = False, vldm_rn = 0, vldm_vd = 4, vldm_imm = 4, vldm_p = True, vldm_w = True\<rparr>"
  have acc: "vfp_access_check ctx0 = Some (True, ctx0)"
    by (simp add: ctx0_def vfp_access_check_def full_vfp_access_check_def arm_dc_feature_def)
  have nf: "no_faults quiet_helpers"
    by (simp add: no_faults_def quiet_helpers_def)
  have feat: "dc_isar_feature Aa32_fpsp_v2 ctx0" "dc_isar_feature Aa32_simd_r32 ctx0"
    by (simp_all add: ctx0_def dc_isar_feature_def)
  have r0: "regs (cpu machine0) 0 = 0x2000"
    by (simp add: machine0_def)
  obtain sa where sa: "trans_VLDM_VSTM_sp ctx0 ?a = Some (True, sa)"
    by (simp add: trans_VLDM_VSTM_sp_def feat acc Let_def split_def)
  obtain sb where sb: "trans_VLDM_VSTM_dp ctx0 ?b = Some (True, sb)"
    by (simp add: trans_VLDM_VSTM_dp_def feat acc Let_def split_def)
  from block_transfer_checks_and_writeback [of ?z ctx0]
  have z: "trans_VLDM_VSTM_sp ctx0 ?z = Some (False, ctx0)" by simp
  from block_transfer_checks_and_writeback [of ?o ctx0]
  have o: "trans_VLDM_VSTM_dp ctx0 ?o = Some (False, ctx0)" by simp
  from block_transfer_checks_and_writeback [of ?a ctx0 ctx0 sa quiet_helpers machine0] acc sa nf
  obtain ma where "exec quiet_helpers (emitted ctx0 sa) None machine0 = Done ma"
    and "regs (cpu ma) 0 = regs (cpu machine0) 0 - 4 * of_nat 2"
    by auto
  then have a: "final_reg quiet_helpers ctx0 (trans_VLDM_VSTM_sp ctx0 ?a) machine0 0 = Some 0x1ff8"
    by (simp add: final_reg_def sa r0)
  from block_transfer_checks_and_writeback [of ?b ctx0 ctx0 sb quiet_helpers machine0] acc sb nf
  obtain mb where "exec quiet_helpers (emitted ctx0 sb) None machine0 = Done mb"
    and "regs (cpu mb) 0 = regs (cpu machine0) 0 - 4 * of_nat 4"
    by auto
  then have b: "final_reg quiet_helpers ctx0 (trans_VLDM_VSTM_dp ctx0 ?b) machine0 0 = Some 0x1ff0"
    by (simp add: final_reg_def sb r0)
  from z o acc nf a b show ?thesis by simp
qed

end
